theory Spec2Isabelle
  imports Main "HOL-Library.Sublist"
begin

section \<open>Python string operations used by storage.py\<close>

text \<open>
  The handlers of \<^verbatim>\<open>TNStorageManagement\<close> build every filesystem path with
  \<^verbatim>\<open>str.replace\<close>, \<^verbatim>\<open>str.split\<close>, \<^verbatim>\<open>str.find\<close>, \<^verbatim>\<open>str.lower\<close>
  and \<^verbatim>\<open>os.path.join\<close>. They are modelled on \<^typ>\<open>string\<close> with Python's semantics:
  \<^verbatim>\<open>replace\<close> rewrites every non-overlapping occurrence from left to right,
  \<^verbatim>\<open>split(sep)\<close> keeps empty pieces, \<^verbatim>\<open>split()\<close> drops them. \<^verbatim>\<open>split()\<close> and
  \<^verbatim>\<open>lower()\<close> are only applied to the output of subprocesses, which is a byte string.
\<close>

fun py_replace_ne :: "string \<Rightarrow> string \<Rightarrow> string \<Rightarrow> string" where
  "py_replace_ne old new [] = []"
| "py_replace_ne old new (c # cs) =
     (if old \<noteq> [] \<and> prefix old (c # cs)
      then new @ py_replace_ne old new (drop (length old) (c # cs))
      else c # py_replace_ne old new cs)"

definition py_replace :: "string \<Rightarrow> string \<Rightarrow> string \<Rightarrow> string" where
  \<comment> \<open>\<^verbatim>\<open>s.replace(old, new)\<close>; an empty \<^verbatim>\<open>old\<close> matches before every character and at the end.\<close>
  "py_replace old new s =
     (if old = [] then new @ concat (map (\<lambda>c. c # new) s) else py_replace_ne old new s)"

fun py_split_from :: "string \<Rightarrow> string \<Rightarrow> string \<Rightarrow> string list" where
  "py_split_from sep cur [] = [cur]"
| "py_split_from sep cur (c # cs) =
     (if sep \<noteq> [] \<and> prefix sep (c # cs)
      then cur # py_split_from sep [] (drop (length sep) (c # cs))
      else py_split_from sep (cur @ [c]) cs)"

definition py_split :: "string \<Rightarrow> string \<Rightarrow> string list" where
  \<comment> \<open>\<^verbatim>\<open>s.split(sep)\<close> for a non-empty separator; the result is never empty.\<close>
  "py_split sep s = py_split_from sep [] s"

definition is_space :: "char \<Rightarrow> bool" where
  "is_space c = (c \<in> set [CHR '' '', CHR 0x09, CHR 0x0A, CHR 0x0B, CHR 0x0C, CHR 0x0D])"

fun py_split_ws_from :: "string \<Rightarrow> string \<Rightarrow> string list" where
  "py_split_ws_from cur [] = (if cur = [] then [] else [cur])"
| "py_split_ws_from cur (c # cs) =
     (if is_space c
      then (if cur = [] then py_split_ws_from [] cs else cur # py_split_ws_from [] cs)
      else py_split_ws_from (cur @ [c]) cs)"

definition py_split_ws :: "string \<Rightarrow> string list" where
  \<comment> \<open>\<^verbatim>\<open>s.split()\<close>: pieces between runs of whitespace.\<close>
  "py_split_ws s = py_split_ws_from [] s"

fun py_find :: "string \<Rightarrow> string \<Rightarrow> int" where
  "py_find sub [] = (if sub = [] then 0 else - 1)"
| "py_find sub (c # cs) =
     (if prefix sub (c # cs) then 0
      else (let r = py_find sub cs in if r < 0 then - 1 else r + 1))"

definition lower_char :: "char \<Rightarrow> char" where
  "lower_char c =
     (case map_of (zip ''ABCDEFGHIJKLMNOPQRSTUVWXYZ'' ''abcdefghijklmnopqrstuvwxyz'') c of
        Some d \<Rightarrow> d
      | None \<Rightarrow> c)"

definition py_lower :: "string \<Rightarrow> string" where
  "py_lower s = map lower_char s"

definition digit_val :: "char \<Rightarrow> int option" where
  "digit_val c = map_of (zip ''0123456789'' [0, 1, 2, 3, 4, 5, 6, 7, 8, 9]) c"

fun digits_val :: "int \<Rightarrow> string \<Rightarrow> int option" where
  "digits_val acc [] = Some acc"
| "digits_val acc (c # cs) =
     (case digit_val c of None \<Rightarrow> None | Some d \<Rightarrow> digits_val (10 * acc + d) cs)"

definition decimal :: "string \<Rightarrow> int option" where
  \<comment> \<open>The value of a plain decimal numeral: an optional sign and ASCII digits, nothing
      else. On such a text \<^verbatim>\<open>int()\<close> returns this value; what \<^verbatim>\<open>int()\<close> does on any other
      text is not decided here (see \<open>py_int\<close> below).\<close>
  "decimal s =
     (case s of
        [] \<Rightarrow> None
      | c # cs \<Rightarrow>
          if c = CHR ''-'' then (if cs = [] then None else map_option uminus (digits_val 0 cs))
          else if c = CHR ''+'' then (if cs = [] then None else digits_val 0 cs)
          else digits_val 0 (c # cs))"

fun str_nat :: "nat \<Rightarrow> string" where
  "str_nat n =
     (if n < 10 then [''0123456789'' ! n]
      else str_nat (n div 10) @ [''0123456789'' ! (n mod 10)])"

definition str_int :: "int \<Rightarrow> string" where
  "str_int i = (if i < 0 then ''-'' @ str_nat (nat (- i)) else str_nat (nat i))"

definition str_opt :: "string option \<Rightarrow> string" where
  \<comment> \<open>\<^verbatim>\<open>"%s" % v\<close> for an attribute value that may be \<^verbatim>\<open>None\<close>.\<close>
  "str_opt v = (case v of None \<Rightarrow> ''None'' | Some s \<Rightarrow> s)"

definition os_path_join :: "string \<Rightarrow> string \<Rightarrow> string" where
  \<comment> \<open>\<^verbatim>\<open>posixpath.join(a, b)\<close>.\<close>
  "os_path_join a b =
     (if prefix ''/'' b then b
      else if a = [] \<or> suffix ''/'' a then a @ b
      else a @ ''/'' @ b)"

section \<open>Data model\<close>

datatype exn =
    Exception "string list"
  | AttributeError
  | TypeError
  | ValueError
  | IndexError
  | OSError
  | ConfigError
  | LibvirtError

text \<open>
  A request: the attributes of the \<^verbatim>\<open>archipel\<close> tag inside the \<^verbatim>\<open>query\<close> tag of the IQ.
  \<open>None\<close> stands for an IQ without that tag, where
  \<^verbatim>\<open>query_node.getTag("archipel").getAttr(...)\<close> raises \<^verbatim>\<open>AttributeError\<close>.
  \<^verbatim>\<open>getAttr\<close> of an attribute that is not there returns \<^verbatim>\<open>None\<close>.
\<close>

record iq =
  archipel :: "(string \<rightharpoonup> string) option"

text \<open>
  The hardware definition document, as far as the handlers read it: the children of
  its \<^verbatim>\<open>devices\<close> tag. A \<^verbatim>\<open>disk\<close> child has a \<^verbatim>\<open>type\<close> attribute, an optional
  \<^verbatim>\<open>source\<close> child with an optional \<^verbatim>\<open>file\<close> attribute and an optional \<^verbatim>\<open>driver\<close>
  child with an optional \<^verbatim>\<open>type\<close> attribute; whatever else it holds is \<open>drive_rest\<close>.
\<close>

record drive =
  disk_type :: "string option"
  source_file :: "string option option"
  driver_type :: "string option option"
  drive_rest :: string

datatype device = Disk drive | Other string

record definition_doc =
  devices :: "device list option"
  doc_rest :: string

datatype node =
    DiskNode string string string string nat
  | IsoNode string string

datatype reply = Result "node list" | Error exn int

datatype event =
    Presence string string
  | Shout string string
  | PushChange string string
  | LogInfo string
  | Call "string list"
  | Unlink string
  | Rename string string
  | Define definition_doc
  | DefineXML definition_doc
  | Send reply

text \<open>
  The entity that owns the plugin. \<open>world\<close> is everything outside the agent that the
  handlers act on (the filesystem and the hypervisor); \<open>trace\<close> records, in order, what
  the handlers send out and which operating-system calls they make.
\<close>

record 'w entity =
  world :: 'w
  folder :: string
  xmppstatus :: string
  xmppstatusshow :: string
  vm_definition :: "definition_doc option"
  is_migrating :: bool
  trace :: "event list"

record plugin =
  shared_isos_folder :: string
  qemu_img_bin :: string
  use_metadata_preallocation :: "bool option"

text \<open>
  The operating system, the external tools and the collaborators of the entity are
  parameters: the handlers are defined for every behaviour of them. \<open>None\<close> is the call
  raising (\<^verbatim>\<open>OSError\<close>, a libvirt error).

  \<open>py_int\<close> is Python's built-in \<^verbatim>\<open>int()\<close> applied to the text of an attribute, \<open>None\<close> its
  \<^verbatim>\<open>ValueError\<close>. Which texts it reads as a number (white space of every kind around the
  digits, signs, digits of other scripts) is Python's business, so it is a parameter
  too and no theorem depends on a reading of it chosen here.

  \<open>check_acp\<close> and \<open>check_perm\<close> are methods of the entity, which storage.py calls at
  lines 113 and 114 with the connection \<^verbatim>\<open>conn\<close>; neither is defined in storage.py. The
  action that \<open>check_acp\<close> gives is a Python value, a text or \<^verbatim>\<open>None\<close>.
\<close>

record 'w sys =
  os_path_exists :: "'w \<Rightarrow> string \<Rightarrow> bool"
  os_path_getsize :: "'w \<Rightarrow> string \<Rightarrow> nat option"
  os_unlink :: "'w \<Rightarrow> string \<Rightarrow> 'w option"
  os_rename :: "'w \<Rightarrow> string \<Rightarrow> string \<Rightarrow> 'w option"
  subprocess_call :: "'w \<Rightarrow> string list \<Rightarrow> (int \<times> 'w) option"
  subprocess_popen :: "'w \<Rightarrow> string list \<Rightarrow> string option"
  entity_define :: "'w \<Rightarrow> definition_doc \<Rightarrow> 'w option"
  libvirt_defineXML :: "'w \<Rightarrow> definition_doc \<Rightarrow> 'w option"
  py_int :: "string \<Rightarrow> int option"
  check_acp :: "iq \<Rightarrow> reply + string option"
  check_perm :: "iq \<Rightarrow> string option \<Rightarrow> string \<Rightarrow> exn option"
  ARCHIPEL_ERROR_CODE_VM_MIGRATING :: int

definition ARCHIPEL_ERROR_CODE_DRIVES_CREATE :: int where
  "ARCHIPEL_ERROR_CODE_DRIVES_CREATE = - 3001"

definition ARCHIPEL_ERROR_CODE_DRIVES_DELETE :: int where
  "ARCHIPEL_ERROR_CODE_DRIVES_DELETE = - 3002"

definition ARCHIPEL_ERROR_CODE_DRIVES_GET :: int where
  "ARCHIPEL_ERROR_CODE_DRIVES_GET = - 3003"

definition ARCHIPEL_ERROR_CODE_DRIVES_GETISO :: int where
  "ARCHIPEL_ERROR_CODE_DRIVES_GETISO = - 3004"

definition ARCHIPEL_ERROR_CODE_DRIVES_CONVERT :: int where
  "ARCHIPEL_ERROR_CODE_DRIVES_CONVERT = - 3005"

definition ARCHIPEL_ERROR_CODE_DRIVES_RENAME :: int where
  "ARCHIPEL_ERROR_CODE_DRIVES_RENAME = - 3006"

section \<open>Effects on the entity\<close>

definition emit :: "event \<Rightarrow> 'w entity \<Rightarrow> 'w entity" where
  "emit ev e = e\<lparr>trace := trace e @ [ev]\<rparr>"

definition change_presence :: "string \<Rightarrow> string \<Rightarrow> 'w entity \<Rightarrow> 'w entity" where
  \<comment> \<open>Modelled from the spec: \<^verbatim>\<open>entity.change_presence\<close> is not part of storage.py. The
      presence state is the pair (status text, show level) the handlers read back from
      \<^verbatim>\<open>entity.xmppstatus\<close> and \<^verbatim>\<open>entity.xmppstatusshow\<close>; setting it stores the pair and
      broadcasts it.\<close>
  "change_presence presence_show presence_status e =
     emit (Presence presence_show presence_status)
       (e\<lparr>xmppstatus := presence_status, xmppstatusshow := presence_show\<rparr>)"

definition build_error_iq :: "exn \<Rightarrow> int \<Rightarrow> reply" where
  "build_error_iq ex code = Error ex code"

definition log_info :: "string \<Rightarrow> 'w entity \<Rightarrow> 'w entity" where
  "log_info msg e = emit (LogInfo msg) e"

definition shout :: "string \<Rightarrow> string \<Rightarrow> 'w entity \<Rightarrow> 'w entity" where
  "shout subject msg e = emit (Shout subject msg) e"

definition push_change :: "string \<Rightarrow> string \<Rightarrow> 'w entity \<Rightarrow> 'w entity" where
  "push_change ns change e = emit (PushChange ns change) e"

section \<open>iq_create\<close>

definition sanitized_name :: "string \<Rightarrow> string" where
  \<comment> \<open>\<^verbatim>\<open>.replace(" ", "_").replace("/", "_").replace("..", "_")\<close>, lines 143 and 223.\<close>
  "sanitized_name name = py_replace ''..'' ''_'' (py_replace ''/'' ''_'' (py_replace '' '' ''_'' name))"

definition size_guard :: "'w sys \<Rightarrow> string option \<Rightarrow> string option \<Rightarrow> exn option" where
  \<comment> \<open>Lines 149 to 152; \<^verbatim>\<open>int(disk_size)\<close> is evaluated only when the unit matches, and
      \<^verbatim>\<open>int(None)\<close> is a \<^verbatim>\<open>TypeError\<close>.\<close>
  "size_guard sy disk_unit disk_size =
     (if disk_unit = Some ''M'' then
        (case disk_size of
           None \<Rightarrow> Some TypeError
         | Some s \<Rightarrow>
             (case py_int sy s of
                None \<Rightarrow> Some ValueError
              | Some n \<Rightarrow>
                  if n \<ge> 1000000000
                  then Some (Exception [''too big'', ''You may be able to do it manually, but I won't try''])
                  else None))
      else if disk_unit = Some ''G'' then
        (case disk_size of
           None \<Rightarrow> Some TypeError
         | Some s \<Rightarrow>
             (case py_int sy s of
                None \<Rightarrow> Some ValueError
              | Some n \<Rightarrow>
                  if n \<ge> 10000
                  then Some (Exception [''too big'', ''You may be able to do this manually, but I won't try''])
                  else None))
      else None)"

definition create_call ::
  "'w sys \<Rightarrow> string list \<Rightarrow> string \<Rightarrow> string option \<Rightarrow> string option \<Rightarrow> 'w entity
    \<Rightarrow> reply \<times> 'w entity" where
  \<comment> \<open>Lines 158 to 166: run the tool, then reply and notify.\<close>
  "create_call sy argv disk_name disk_size disk_unit e =
     (let e1 = emit (Call argv) e in
      case subprocess_call sy (world e1) argv of
        None \<Rightarrow> (build_error_iq OSError ARCHIPEL_ERROR_CODE_DRIVES_CREATE, e1)
      | Some (ret, w) \<Rightarrow>
          let e2 = e1\<lparr>world := w\<rparr> in
          if ret \<noteq> 0
          then (build_error_iq
                  (Exception [''DriveError'', ''Unable to create drive. Error code is '' @ str_int ret])
                  ARCHIPEL_ERROR_CODE_DRIVES_CREATE, e2)
          else (Result [],
                push_change ''disk'' ''created''
                  (shout ''disk''
                     (''I've just created a new hard drive named '' @ disk_name @ '' with size of ''
                        @ str_opt disk_size @ str_opt disk_unit @ ''.'')
                     (log_info ''disk created'' e2))))"

definition iq_create :: "'w sys \<Rightarrow> plugin \<Rightarrow> iq \<Rightarrow> 'w entity \<Rightarrow> reply \<times> 'w entity" where
  "iq_create sy pl q e =
     (let fail = (\<lambda>ex st. (build_error_iq ex ARCHIPEL_ERROR_CODE_DRIVES_CREATE, st)) in
      case archipel q of
        None \<Rightarrow> fail AttributeError e
      | Some a \<Rightarrow>
          (case a ''name'' of
             None \<Rightarrow> fail AttributeError e
           | Some name \<Rightarrow>
               let disk_name = sanitized_name name;
                   disk_size = a ''size'';
                   disk_unit = a ''unit'';
                   prealloc = a ''preallocation''
               in
               (case a ''format'' of
                  None \<Rightarrow> fail TypeError e
                | Some format \<Rightarrow>
                    let disk_path = folder e @ ''/'' @ disk_name @ ''.'' @ format in
                    (case size_guard sy disk_unit disk_size of
                       Some ex \<Rightarrow> fail ex e
                     | None \<Rightarrow>
                         if os_path_exists sy (world e) disk_path
                         then fail (Exception [''The disk with name '' @ disk_name @ '' already exists.'']) e
                         else if prealloc = Some ''metadata'' \<and> format = ''qcow2''
                         then
                           (case use_metadata_preallocation pl of
                              None \<Rightarrow> fail ConfigError e
                            | Some b \<Rightarrow>
                                if b
                                then create_call sy
                                       [qemu_img_bin pl, ''create'', ''-f'', format, ''-o'',
                                        ''preallocation=metadata'', disk_path,
                                        str_opt disk_size @ str_opt disk_unit]
                                       disk_name disk_size disk_unit
                                       (log_info ''creating a QCOW2 file with preallocated metadata'' e)
                                else create_call sy
                                       [qemu_img_bin pl, ''create'', ''-f'', format, disk_path,
                                        str_opt disk_size @ str_opt disk_unit]
                                       disk_name disk_size disk_unit e)
                         else create_call sy
                                [qemu_img_bin pl, ''create'', ''-f'', format, disk_path,
                                 str_opt disk_size @ str_opt disk_unit]
                                disk_name disk_size disk_unit e))))"

section \<open>iq_convert\<close>

definition convert_disk_path :: "string \<Rightarrow> string \<Rightarrow> string" where
  \<comment> \<open>Line 185: \<^verbatim>\<open>path.replace(path.split(".")[-1], "") + format\<close>.\<close>
  "convert_disk_path path format = py_replace (last (py_split ''.'' path)) [] path @ format"

definition rewrite_drive :: "string \<Rightarrow> string \<Rightarrow> drive \<Rightarrow> drive" where
  \<comment> \<open>Lines 196 to 199: the driver type is set when the drive has a \<^verbatim>\<open>driver\<close> child,
      the source file always (the \<^verbatim>\<open>source\<close> child is known to be there).\<close>
  "rewrite_drive format disk_path d =
     d\<lparr>driver_type := (case driver_type d of None \<Rightarrow> None | Some t \<Rightarrow> Some (Some format)),
       source_file := Some (Some disk_path)\<rparr>"

fun retarget :: "string \<Rightarrow> string \<Rightarrow> string \<Rightarrow> device list \<Rightarrow> device list option" where
  \<comment> \<open>The loop of lines 193 to 201 over the \<^verbatim>\<open>disk\<close> children, up to its \<^verbatim>\<open>break\<close>:
      the devices with the first matching drive rewritten in place, \<open>None\<close> when no
      drive matches.\<close>
  "retarget path format disk_path [] = None"
| "retarget path format disk_path (Other x # ds) =
     map_option ((#) (Other x)) (retarget path format disk_path ds)"
| "retarget path format disk_path (Disk d # ds) =
     (case source_file d of
        None \<Rightarrow> map_option ((#) (Disk d)) (retarget path format disk_path ds)
      | Some f \<Rightarrow>
          if f = Some path
          then Some (Disk (rewrite_drive format disk_path d) # ds)
          else map_option ((#) (Disk d)) (retarget path format disk_path ds))"

definition convert_sync ::
  "'w sys \<Rightarrow> string \<Rightarrow> string \<Rightarrow> string \<Rightarrow> 'w entity \<Rightarrow> exn option \<times> 'w entity" where
  \<comment> \<open>Lines 193 to 201 on the entity: \<^verbatim>\<open>entity.definition\<close> or its \<^verbatim>\<open>devices\<close> tag missing
      raises \<^verbatim>\<open>AttributeError\<close>; a match rewrites the document and commits it.\<close>
  "convert_sync sy path format disk_path e =
     (case vm_definition e of
        None \<Rightarrow> (Some AttributeError, e)
      | Some doc \<Rightarrow>
          (case devices doc of
             None \<Rightarrow> (Some AttributeError, e)
           | Some devs \<Rightarrow>
               (case retarget path format disk_path devs of
                  None \<Rightarrow> (None, e)
                | Some devs' \<Rightarrow>
                    let doc' = doc\<lparr>devices := Some devs'\<rparr>;
                        e1 = emit (Define doc') (e\<lparr>vm_definition := Some doc'\<rparr>)
                    in
                    (case entity_define sy (world e1) doc' of
                       None \<Rightarrow> (Some LibvirtError, e1)
                     | Some w \<Rightarrow> (None, e1\<lparr>world := w\<rparr>)))))"

definition iq_convert :: "'w sys \<Rightarrow> plugin \<Rightarrow> iq \<Rightarrow> 'w entity \<Rightarrow> reply \<times> 'w entity" where
  "iq_convert sy pl q e =
     (let old_status = xmppstatus e;
          old_show = xmppstatusshow e;
          fail = (\<lambda>ex st. (build_error_iq ex ARCHIPEL_ERROR_CODE_DRIVES_CONVERT,
                            change_presence old_show old_status st))
      in
      case archipel q of
        None \<Rightarrow> fail AttributeError e
      | Some a \<Rightarrow>
          (case a ''path'' of
             None \<Rightarrow> fail AttributeError e
           | Some path \<Rightarrow>
               (case a ''format'' of
                  None \<Rightarrow> fail TypeError e
                | Some format \<Rightarrow>
                    let disk_path = convert_disk_path path format in
                    if os_path_exists sy (world e) disk_path
                    then fail (Exception [''The disk with same name and extension already exists.'']) e
                    else
                      let e1 = change_presence ''dnd'' ''Converting a disk...'' e;
                          argv = [qemu_img_bin pl, ''convert'', path, ''-O'', format, disk_path];
                          e2 = emit (Call argv) e1
                      in
                      (case subprocess_call sy (world e2) argv of
                         None \<Rightarrow> fail OSError e2
                       | Some (ret, w) \<Rightarrow>
                           let e3 = e2\<lparr>world := w\<rparr> in
                           if ret \<noteq> 0
                           then fail (Exception [''DriveError'',
                                        ''Unable to convert drive. Error code is '' @ str_int ret]) e3
                           else
                             let e4 = emit (Unlink path) e3 in
                             (case os_unlink sy (world e4) path of
                                None \<Rightarrow> fail OSError e4
                              | Some w' \<Rightarrow>
                                  (case convert_sync sy path format disk_path (e4\<lparr>world := w'\<rparr>) of
                                     (Some ex, e6) \<Rightarrow> fail ex e6
                                   | (None, e6) \<Rightarrow>
                                       (Result [],
                                        push_change ''disk'' ''converted''
                                          (shout ''disk''
                                             (''I've just converted hard drive '' @ path
                                                @ '' into format '' @ format @ ''.'')
                                             (log_info
                                                (''disk as been converted from '' @ path @ '' to '' @ disk_path)
                                                (change_presence old_show old_status e6))))))))))"

section \<open>iq_rename\<close>

definition rename_newpath :: "string \<Rightarrow> string \<Rightarrow> string \<Rightarrow> string" where
  \<comment> \<open>Lines 223 to 225.\<close>
  "rename_newpath fld path newname_attr =
     os_path_join fld (sanitized_name newname_attr @ ''.'' @ last (py_split ''.'' path))"

definition iq_rename :: "'w sys \<Rightarrow> plugin \<Rightarrow> iq \<Rightarrow> 'w entity \<Rightarrow> reply \<times> 'w entity" where
  "iq_rename sy pl q e =
     (let fail = (\<lambda>ex st. (build_error_iq ex ARCHIPEL_ERROR_CODE_DRIVES_RENAME, st)) in
      case archipel q of
        None \<Rightarrow> fail AttributeError e
      | Some a \<Rightarrow>
          (case a ''newname'' of
             None \<Rightarrow> fail AttributeError e
           | Some newname_attr \<Rightarrow>
               let newname = sanitized_name newname_attr in
               (case a ''path'' of
                  None \<Rightarrow> fail AttributeError e
                | Some path \<Rightarrow>
                    let newpath = rename_newpath (folder e) path newname_attr in
                    if os_path_exists sy (world e) newpath
                    then fail (Exception [''The disk with name '' @ newname @ '' already exists.'']) e
                    else
                      let e1 = emit (Rename path newpath) e in
                      (case os_rename sy (world e1) path newpath of
                         None \<Rightarrow> fail OSError e1
                       | Some w \<Rightarrow>
                           (Result [],
                            push_change ''disk'' ''renamed''
                              (shout ''disk''
                                 (''I've just renamed hard drive '' @ path @ '' into  '' @ newname @ ''.'')
                                 (log_info (''renamed hard drive '' @ path @ '' into  '' @ newname)
                                    (e1\<lparr>world := w\<rparr>))))))))"

section \<open>iq_delete\<close>

definition secure_disk_path :: "string \<Rightarrow> string \<Rightarrow> string" where
  \<comment> \<open>Lines 248 and 249.\<close>
  "secure_disk_path fld disk_name = fld @ ''/'' @ last (py_split ''/'' disk_name)"

fun undefine_loop :: "string \<Rightarrow> device list \<Rightarrow> exn option \<times> device list \<times> bool" where
  \<comment> \<open>Lines 257 and 260 to 264 in one pass over the children of \<^verbatim>\<open>devices\<close>: the nodes that
      \<^verbatim>\<open>getTags('disk', attrs={'type': 'file'})\<close> selects are visited in document order,
      \<^verbatim>\<open>delChild\<close> takes the visited node itself out, and a selected node without a
      \<^verbatim>\<open>source\<close> child raises \<^verbatim>\<open>AttributeError\<close>, which leaves the rest as it is. The
      result is the exception if any, the children left, and
      \<^verbatim>\<open>have_undefined_at_least_on_disk\<close>.\<close>
  "undefine_loop p [] = (None, [], False)"
| "undefine_loop p (Other x # ds) =
     (case undefine_loop p ds of (err, ds', b) \<Rightarrow> (err, Other x # ds', b))"
| "undefine_loop p (Disk d # ds) =
     (if disk_type d = Some ''file''
      then
        (case source_file d of
           None \<Rightarrow> (Some AttributeError, Disk d # ds, False)
         | Some f \<Rightarrow>
             if f = Some p
             then (case undefine_loop p ds of (err, ds', b) \<Rightarrow> (err, ds', True))
             else (case undefine_loop p ds of (err, ds', b) \<Rightarrow> (err, Disk d # ds', b)))
      else (case undefine_loop p ds of (err, ds', b) \<Rightarrow> (err, Disk d # ds', b)))"

definition delete_sync ::
  "'w sys \<Rightarrow> string \<Rightarrow> string option \<Rightarrow> 'w entity \<Rightarrow> exn option \<times> 'w entity" where
  \<comment> \<open>Lines 254 to 268.\<close>
  "delete_sync sy path undefine e =
     (case vm_definition e of
        None \<Rightarrow> (None, e)
      | Some doc \<Rightarrow>
          (case devices doc of
             None \<Rightarrow> (Some AttributeError, e)
           | Some devs \<Rightarrow>
               if undefine = Some ''yes''
               then
                 (case undefine_loop path devs of
                    (err, devs', have_undefined_at_least_on_disk) \<Rightarrow>
                      let doc' = doc\<lparr>devices := Some devs'\<rparr>;
                          e1 = e\<lparr>vm_definition := Some doc'\<rparr>
                      in
                      (case err of
                         Some ex \<Rightarrow> (Some ex, e1)
                       | None \<Rightarrow>
                           if have_undefined_at_least_on_disk
                           then
                             let e2 = emit (DefineXML doc') e1 in
                             (case libvirt_defineXML sy (world e2) doc' of
                                None \<Rightarrow> (Some LibvirtError, e2)
                              | Some w \<Rightarrow>
                                  (None, push_change ''virtualmachine:definition'' ''defined''
                                           (e2\<lparr>world := w\<rparr>)))
                           else (None, e1)))
               else (None, e)))"

definition iq_delete :: "'w sys \<Rightarrow> plugin \<Rightarrow> iq \<Rightarrow> 'w entity \<Rightarrow> reply \<times> 'w entity" where
  "iq_delete sy pl q e =
     (let fail = (\<lambda>ex st. (build_error_iq ex ARCHIPEL_ERROR_CODE_DRIVES_DELETE, st)) in
      case archipel q of
        None \<Rightarrow> fail AttributeError e
      | Some a \<Rightarrow>
          (case a ''name'' of
             None \<Rightarrow> fail AttributeError e
           | Some disk_name \<Rightarrow>
               let path = secure_disk_path (folder e) disk_name;
                   old_status = xmppstatus e;
                   old_show = xmppstatusshow e;
                   e1 = change_presence ''dnd'' ''Deleting a drive...'' e;
                   e2 = emit (Unlink path) e1
               in
               (case os_unlink sy (world e2) path of
                  None \<Rightarrow> fail OSError e2
                | Some w \<Rightarrow>
                    (case delete_sync sy path (a ''undefine'') (e2\<lparr>world := w\<rparr>) of
                       (Some ex, e4) \<Rightarrow> fail ex e4
                     | (None, e4) \<Rightarrow>
                         (Result [],
                          shout ''disk''
                            (''I've just deleted the hard drive named '' @ disk_name @ ''.'')
                            (push_change ''disk'' ''deleted''
                               (log_info (''disk '' @ path @ '' deleted'')
                                  (change_presence old_show old_status e4))))))))"

section \<open>iq_get and iq_getiso\<close>

definition contains :: "string \<Rightarrow> string \<Rightarrow> bool" where
  \<comment> \<open>\<^verbatim>\<open>s.find(sub) > -1\<close>.\<close>
  "contains s sub = (py_find sub s > - 1)"

definition is_disk_image :: "string \<Rightarrow> bool" where
  \<comment> \<open>Lines 291 to 297.\<close>
  "is_disk_image file_cmd_output =
     ((contains file_cmd_output ''format: qcow''
       \<or> contains file_cmd_output ''qemu qcow image''
       \<or> contains file_cmd_output ''boot sector''
       \<or> contains file_cmd_output ''vmware''
       \<or> contains file_cmd_output ''data''
       \<or> contains file_cmd_output ''user-mode linux cow file'')
      \<and> py_find ''sqlite'' file_cmd_output = - 1)"

definition info_field :: "string list \<Rightarrow> nat \<Rightarrow> exn + string" where
  \<comment> \<open>\<^verbatim>\<open>diskInfo[i].split(": ")[1]\<close>; either index may be out of range.\<close>
  "info_field diskInfo i =
     (if i < length diskInfo
      then (let parts = py_split '': '' (diskInfo ! i) in
            if 1 < length parts then Inr (parts ! 1) else Inl IndexError)
      else Inl IndexError)"

fun get_nodes :: "'w sys \<Rightarrow> plugin \<Rightarrow> 'w \<Rightarrow> string \<Rightarrow> string list \<Rightarrow> exn + node list" where
  \<comment> \<open>The loop of lines 289 to 307.\<close>
  "get_nodes sy pl w fld [] = Inr []"
| "get_nodes sy pl w fld (disk # disks) =
     (case subprocess_popen sy w [''file'', fld @ ''/'' @ disk] of
        None \<Rightarrow> Inl OSError
      | Some out \<Rightarrow>
          if is_disk_image (py_lower out)
          then
            (let diskPath = fld @ ''/'' @ disk in
             case os_path_getsize sy w diskPath of
               None \<Rightarrow> Inl OSError
             | Some diskSize \<Rightarrow>
                 (case subprocess_popen sy w [qemu_img_bin pl, ''info'', diskPath] of
                    None \<Rightarrow> Inl OSError
                  | Some info \<Rightarrow>
                      let diskInfo = py_split [CHR 0x0A] info in
                      (case info_field diskInfo 1 of
                         Inl ex \<Rightarrow> Inl ex
                       | Inr fmt \<Rightarrow>
                           (case info_field diskInfo 2 of
                              Inl ex \<Rightarrow> Inl ex
                            | Inr virtualSize \<Rightarrow>
                                (case get_nodes sy pl w fld disks of
                                   Inl ex \<Rightarrow> Inl ex
                                 | Inr nodes \<Rightarrow>
                                     Inr (DiskNode (hd (py_split ''.'' disk)) diskPath fmt
                                            virtualSize diskSize # nodes))))))
          else get_nodes sy pl w fld disks)"

definition iq_get :: "'w sys \<Rightarrow> plugin \<Rightarrow> iq \<Rightarrow> 'w entity \<Rightarrow> reply \<times> 'w entity" where
  "iq_get sy pl q e =
     (case subprocess_popen sy (world e) [''ls'', folder e] of
        None \<Rightarrow> (build_error_iq OSError ARCHIPEL_ERROR_CODE_DRIVES_GET, e)
      | Some out \<Rightarrow>
          (case get_nodes sy pl (world e) (folder e) (py_split_ws out) of
             Inl ex \<Rightarrow> (build_error_iq ex ARCHIPEL_ERROR_CODE_DRIVES_GET, e)
           | Inr nodes \<Rightarrow> (Result nodes, log_info ''info about disks sent'' e)))"

fun iso_nodes :: "'w sys \<Rightarrow> 'w \<Rightarrow> string \<Rightarrow> string \<Rightarrow> string list \<Rightarrow> exn + node list" where
  \<comment> \<open>One loop of \<^verbatim>\<open>iq_getiso\<close>: every entry is classified by \<^verbatim>\<open>file\<close> at
      \<open>probe_folder/entry\<close> and, when accepted, described with the path
      \<open>tag_folder/entry\<close>.\<close>
  "iso_nodes sy w probe_folder tag_folder [] = Inr []"
| "iso_nodes sy w probe_folder tag_folder (entry # isos) =
     (case subprocess_popen sy w [''file'', probe_folder @ ''/'' @ entry] of
        None \<Rightarrow> Inl OSError
      | Some out \<Rightarrow>
          (case iso_nodes sy w probe_folder tag_folder isos of
             Inl ex \<Rightarrow> Inl ex
           | Inr nodes \<Rightarrow>
               if contains (py_lower out) ''iso 9660''
               then Inr (IsoNode entry (tag_folder @ ''/'' @ entry) # nodes)
               else Inr nodes))"

definition iq_getiso :: "'w sys \<Rightarrow> plugin \<Rightarrow> iq \<Rightarrow> 'w entity \<Rightarrow> reply \<times> 'w entity" where
  \<comment> \<open>Lines 325 to 334: the first loop lists \<^verbatim>\<open>self.entity.folder\<close> and probes under
      \<^verbatim>\<open>self.shared_isos_folder\<close> (line 327); the second lists and probes the shared folder.\<close>
  "iq_getiso sy pl q e =
     (let fail = (\<lambda>ex. (build_error_iq ex ARCHIPEL_ERROR_CODE_DRIVES_GETISO, e)) in
      case subprocess_popen sy (world e) [''ls'', folder e] of
        None \<Rightarrow> fail OSError
      | Some out \<Rightarrow>
          (case iso_nodes sy (world e) (shared_isos_folder pl) (folder e) (py_split_ws out) of
             Inl ex \<Rightarrow> fail ex
           | Inr nodes \<Rightarrow>
               (case subprocess_popen sy (world e) [''ls'', shared_isos_folder pl] of
                  None \<Rightarrow> fail OSError
                | Some shared_out \<Rightarrow>
                    (case iso_nodes sy (world e) (shared_isos_folder pl) (shared_isos_folder pl)
                            (py_split_ws shared_out) of
                       Inl ex \<Rightarrow> fail ex
                     | Inr shared_nodes \<Rightarrow>
                         (Result (nodes @ shared_nodes), log_info ''info about iso sent'' e)))))"

section \<open>process_iq\<close>

datatype outcome = NodeProcessed | Returned

definition process_iq :: "'w sys \<Rightarrow> plugin \<Rightarrow> iq \<Rightarrow> 'w entity \<Rightarrow> outcome \<times> 'w entity" where
  \<comment> \<open>Lines 112 to 131. \<open>NodeProcessed\<close> is a reply sent and the exception of that name
      raised, \<open>Returned\<close> the method falling off its end with nothing sent.

      Modelled from the spec: \<^verbatim>\<open>entity.check_acp\<close> and \<^verbatim>\<open>entity.check_perm\<close> are not in
      storage.py. The dispatcher hands both the connection and ignores what
      \<^verbatim>\<open>check_perm\<close> returns, so a collaborator that refuses a request can only end the
      processing by answering it itself; the spec has authorization failures handled
      by the authorization collaborator before dispatch and answered with a structured
      error. \<open>check_acp\<close> either gives the action or the reply it sent; \<open>check_perm\<close> is
      given the action and the prefix \<^verbatim>\<open>drives_\<close> and either lets the request through
      (\<open>None\<close>) or refuses it with an error, sent with the error code -1 that line 114
      passes.\<close>
  "process_iq sy pl q e =
     (case check_acp sy q of
        Inl refusal \<Rightarrow> (NodeProcessed, emit (Send refusal) e)
      | Inr action \<Rightarrow>
          (case check_perm sy q action ''drives_'' of
             Some ex \<Rightarrow> (NodeProcessed, emit (Send (build_error_iq ex (- 1))) e)
           | None \<Rightarrow>
            (case
               (if is_migrating e \<and> \<not> (action \<in> set [Some ''get'', Some ''getiso''])
                then (Some (build_error_iq
                              (Exception [''virtual machine is migrating. Can't perform any drives operation''])
                              (ARCHIPEL_ERROR_CODE_VM_MIGRATING sy)), e)
                else if action = Some ''create'' then (case iq_create sy pl q e of (r, e') \<Rightarrow> (Some r, e'))
                else if action = Some ''delete'' then (case iq_delete sy pl q e of (r, e') \<Rightarrow> (Some r, e'))
                else if action = Some ''get'' then (case iq_get sy pl q e of (r, e') \<Rightarrow> (Some r, e'))
                else if action = Some ''getiso'' then (case iq_getiso sy pl q e of (r, e') \<Rightarrow> (Some r, e'))
                else if action = Some ''convert'' then (case iq_convert sy pl q e of (r, e') \<Rightarrow> (Some r, e'))
                else if action = Some ''rename'' then (case iq_rename sy pl q e of (r, e') \<Rightarrow> (Some r, e'))
                else (None, e))
             of
               (Some reply, e') \<Rightarrow> (NodeProcessed, emit (Send reply) e')
             | (None, e') \<Rightarrow> (Returned, e'))))"

section \<open>Properties of paths\<close>

fun stays_inside :: "nat \<Rightarrow> string list \<Rightarrow> bool" where
  \<comment> \<open>Walking the components of a relative path from a depth below the folder: empty
      and \<open>.\<close> components stay, \<open>..\<close> climbs and must not climb above the folder.\<close>
  "stays_inside depth [] = True"
| "stays_inside depth (c # cs) =
     (if c = [] \<or> c = ''.'' then stays_inside depth cs
      else if c = ''..'' then (0 < depth \<and> stays_inside (depth - 1) cs)
      else stays_inside (Suc depth) cs)"

definition confined :: "string \<Rightarrow> string \<Rightarrow> bool" where
  \<comment> \<open>The path is the folder, a separator and a relative path that never leaves it.\<close>
  "confined fld p =
     (prefix (fld @ ''/'') p \<and> stays_inside 0 (py_split ''/'' (drop (length fld + 1) p)))"

definition replace_extension :: "string \<Rightarrow> string \<Rightarrow> string" where
  \<comment> \<open>The destination as the spec words it: the path with the suffix after its last
      dot replaced by the format.\<close>
  "replace_extension p f = take (length p - length (last (py_split ''.'' p))) p @ f"

section \<open>Properties of the definition document\<close>

fun device_source :: "device \<Rightarrow> string option" where
  \<comment> \<open>The source file of a device entry, when it is a disk that has one.\<close>
  "device_source (Disk d) = (case source_file d of Some (Some f) \<Rightarrow> Some f | _ \<Rightarrow> None)"
| "device_source (Other x) = None"

fun rewrite_device :: "string \<Rightarrow> string \<Rightarrow> device \<Rightarrow> device" where
  "rewrite_device format disk_path (Disk d) = Disk (rewrite_drive format disk_path d)"
| "rewrite_device format disk_path (Other x) = Other x"

fun is_file_disk_of :: "string \<Rightarrow> device \<Rightarrow> bool" where
  \<comment> \<open>A disk entry of type \<open>file\<close> whose source file is the path.\<close>
  "is_file_disk_of p (Disk d) = (disk_type d = Some ''file'' \<and> source_file d = Some (Some p))"
| "is_file_disk_of p (Other x) = False"

section \<open>A small system to run the handlers on\<close>

text \<open>
  The world is the list of the paths that exist. The conversion tool succeeds and
  creates its destination, every other tool call fails with exit code 1; the
  hypervisor accepts every definition, every well-formed request is let through, and
  sizes are plain decimal numerals. The definition document of the demo machine has an
  interface and two disk entries with the same source file, the second one without a
  \<^verbatim>\<open>type\<close> attribute.
\<close>

definition demo_popen :: "string list \<Rightarrow> string list \<Rightarrow> string option" where
  "demo_popen w argv =
     (if argv = [''ls'', ''/vm''] then Some (''a.iso'' @ [CHR 0x0A])
      else if argv = [''ls'', ''/isos/''] then Some []
      else if argv = [''file'', ''/vm/a.iso'']
      then Some ''/vm/a.iso: ISO 9660 CD-ROM filesystem data''
      else Some ''cannot open (No such file or directory)'')"

definition demo_sys :: "string list sys" where
  "demo_sys =
     \<lparr>os_path_exists = (\<lambda>w p. p \<in> set w),
      os_path_getsize = (\<lambda>w p. if p \<in> set w then Some 0 else None),
      os_unlink = (\<lambda>w p. if p \<in> set w then Some (removeAll p w) else None),
      os_rename = (\<lambda>w a b. if a \<in> set w then Some (b # removeAll a w) else None),
      subprocess_call =
        (\<lambda>w argv. if length argv = 6 \<and> argv ! 1 = ''convert'' then Some (0, argv ! 5 # w)
                   else Some (1, w)),
      subprocess_popen = demo_popen,
      entity_define = (\<lambda>w d. Some w),
      libvirt_defineXML = (\<lambda>w d. Some w),
      py_int = decimal,
      check_acp =
        (\<lambda>q. case archipel q of
               None \<Rightarrow> Inl (Error AttributeError (- 1))
             | Some a \<Rightarrow> Inr (a ''action'')),
      check_perm = (\<lambda>q action prefix. None),
      ARCHIPEL_ERROR_CODE_VM_MIGRATING = - 43\<rparr>"

definition demo_sys_refusing :: "string list sys" where
  \<comment> \<open>The same system with a permission check that refuses every request.\<close>
  "demo_sys_refusing =
     demo_sys\<lparr>check_perm := (\<lambda>q action prefix. Some (Exception [''permission denied'']))\<rparr>"

definition demo_plugin :: plugin where
  "demo_plugin =
     \<lparr>shared_isos_folder = ''/isos/'', qemu_img_bin = ''qemu-img'',
      use_metadata_preallocation = Some False\<rparr>"

definition demo_drive :: "string option \<Rightarrow> string \<Rightarrow> drive" where
  "demo_drive t f =
     \<lparr>disk_type = t, source_file = Some (Some f), driver_type = Some (Some ''qcow2''),
      drive_rest = ''target''\<rparr>"

definition demo_doc :: definition_doc where
  "demo_doc =
     \<lparr>devices = Some [Other ''interface'', Disk (demo_drive (Some ''file'') ''/vm/a.qcow2''),
                      Disk (demo_drive None ''/vm/a.qcow2'')],
      doc_rest = ''name''\<rparr>"

definition demo_entity :: "string list entity" where
  "demo_entity =
     \<lparr>world = [''/vm/a.qcow2''], folder = ''/vm'', xmppstatus = ''Online'',
      xmppstatusshow = ''chat'', vm_definition = Some demo_doc, is_migrating = False,
      trace = []\<rparr>"

definition demo_iq :: "(string \<times> string) list \<Rightarrow> iq" where
  "demo_iq attrs = \<lparr>archipel = Some (map_of attrs)\<rparr>"

section \<open>Destinations that already exist\<close>

lemma change_presence_same:
  "change_presence (xmppstatusshow e) (xmppstatus e) e
     = emit (Presence (xmppstatusshow e) (xmppstatus e)) e"
  by (simp add: change_presence_def)

lemma create_existing:
  assumes "archipel q = Some a" "a ''name'' = Some name" "a ''format'' = Some fmt"
    and "os_path_exists sy (world e) (folder e @ ''/'' @ sanitized_name name @ ''.'' @ fmt)"
  shows "\<exists>ex. iq_create sy pl q e = (Error ex (- 3001), e)"
  using assms
  by (simp add: iq_create_def build_error_iq_def ARCHIPEL_ERROR_CODE_DRIVES_CREATE_def Let_def
      split: option.splits)

lemma rename_existing:
  assumes "archipel q = Some a" "a ''path'' = Some path" "a ''newname'' = Some newname"
    and "os_path_exists sy (world e) (rename_newpath (folder e) path newname)"
  shows "\<exists>ex. iq_rename sy pl q e = (Error ex (- 3006), e)"
  using assms
  by (simp add: iq_rename_def build_error_iq_def ARCHIPEL_ERROR_CODE_DRIVES_RENAME_def Let_def)

lemma convert_existing:
  assumes "archipel q = Some a" "a ''path'' = Some path" "a ''format'' = Some fmt"
    and "os_path_exists sy (world e) (convert_disk_path path fmt)"
  shows "\<exists>ex. iq_convert sy pl q e
           = (Error ex (- 3005), emit (Presence (xmppstatusshow e) (xmppstatus e)) e)"
  using assms
  by (simp add: iq_convert_def build_error_iq_def ARCHIPEL_ERROR_CODE_DRIVES_CONVERT_def Let_def
      change_presence_same)

text \<open>
  Claim C5. When the destination path that create, rename or convert computes from the
  request already exists, the handler answers with an error carrying its own code
  (-3001, -3006, -3005). Create and rename return the entity as it was; convert returns
  it with one more trace entry, the presence broadcast of its \<^verbatim>\<open>except\<close> branch, which
  repeats the presence the entity already had. In all three the world is untouched and
  the trace gets no \<open>Call\<close>, \<open>Unlink\<close> or \<open>Rename\<close>.
\<close>

theorem existing_destination_refused:
  assumes "archipel q = Some a"
  shows "(a ''name'' = Some name \<and> a ''format'' = Some fmt
          \<and> os_path_exists sy (world e) (folder e @ ''/'' @ sanitized_name name @ ''.'' @ fmt)
          \<longrightarrow> (\<exists>ex. iq_create sy pl q e = (Error ex (- 3001), e)))
       \<and> (a ''path'' = Some path \<and> a ''newname'' = Some newname
          \<and> os_path_exists sy (world e) (rename_newpath (folder e) path newname)
          \<longrightarrow> (\<exists>ex. iq_rename sy pl q e = (Error ex (- 3006), e)))
       \<and> (a ''path'' = Some path \<and> a ''format'' = Some fmt
          \<and> os_path_exists sy (world e) (convert_disk_path path fmt)
          \<longrightarrow> (\<exists>ex. iq_convert sy pl q e
                 = (Error ex (- 3005), emit (Presence (xmppstatusshow e) (xmppstatus e)) e)))"
  using create_existing [OF assms] rename_existing [OF assms] convert_existing [OF assms]
  by blast

theorem existing_destination_refused_witness:
  "os_path_exists demo_sys [''/vm/a.qcow2'', ''/vm/a.raw'', ''/vm/b.qcow2'', ''/vm/b.raw'']
     (''/vm'' @ ''/'' @ sanitized_name ''a'' @ ''.'' @ ''qcow2'')
   \<and> os_path_exists demo_sys [''/vm/a.qcow2'', ''/vm/a.raw'', ''/vm/b.qcow2'', ''/vm/b.raw'']
     (rename_newpath ''/vm'' ''/vm/b.raw'' ''a'')
   \<and> os_path_exists demo_sys [''/vm/a.qcow2'', ''/vm/a.raw'', ''/vm/b.qcow2'', ''/vm/b.raw'']
     (convert_disk_path ''/vm/b.raw'' ''qcow2'')
   \<and> (\<exists>ex. iq_create demo_sys demo_plugin
          (demo_iq [(''name'', ''a''), (''format'', ''qcow2''), (''path'', ''/vm/b.raw''), (''newname'', ''a'')])
          (demo_entity\<lparr>world := [''/vm/a.qcow2'', ''/vm/a.raw'', ''/vm/b.qcow2'', ''/vm/b.raw'']\<rparr>)
        = (Error ex (- 3001),
           demo_entity\<lparr>world := [''/vm/a.qcow2'', ''/vm/a.raw'', ''/vm/b.qcow2'', ''/vm/b.raw'']\<rparr>))
   \<and> (\<exists>ex. iq_rename demo_sys demo_plugin
          (demo_iq [(''name'', ''a''), (''format'', ''qcow2''), (''path'', ''/vm/b.raw''), (''newname'', ''a'')])
          (demo_entity\<lparr>world := [''/vm/a.qcow2'', ''/vm/a.raw'', ''/vm/b.qcow2'', ''/vm/b.raw'']\<rparr>)
        = (Error ex (- 3006),
           demo_entity\<lparr>world := [''/vm/a.qcow2'', ''/vm/a.raw'', ''/vm/b.qcow2'', ''/vm/b.raw'']\<rparr>))
   \<and> (\<exists>ex. iq_convert demo_sys demo_plugin
          (demo_iq [(''name'', ''a''), (''format'', ''qcow2''), (''path'', ''/vm/b.raw''), (''newname'', ''a'')])
          (demo_entity\<lparr>world := [''/vm/a.qcow2'', ''/vm/a.raw'', ''/vm/b.qcow2'', ''/vm/b.raw'']\<rparr>)
        = (Error ex (- 3005),
           demo_entity\<lparr>world := [''/vm/a.qcow2'', ''/vm/a.raw'', ''/vm/b.qcow2'', ''/vm/b.raw''],
                        trace := [Presence ''chat'' ''Online'']\<rparr>))"
proof -
  have paths:
    "sanitized_name ''a'' = ''a''"
    "rename_newpath ''/vm'' ''/vm/b.raw'' ''a'' = ''/vm/a.raw''"
    "convert_disk_path ''/vm/b.raw'' ''qcow2'' = ''/vm/b.qcow2''"
    by (simp_all add: sanitized_name_def rename_newpath_def convert_disk_path_def py_replace_def
        py_split_def os_path_join_def suffix_def)
  show ?thesis
    using existing_destination_refused
      [of "demo_iq [(''name'', ''a''), (''format'', ''qcow2''), (''path'', ''/vm/b.raw''), (''newname'', ''a'')]"
        "map_of [(''name'', ''a''), (''format'', ''qcow2''), (''path'', ''/vm/b.raw''), (''newname'', ''a'')]"
        "''a''" "''qcow2''" demo_sys
        "demo_entity\<lparr>world := [''/vm/a.qcow2'', ''/vm/a.raw'', ''/vm/b.qcow2'', ''/vm/b.raw'']\<rparr>"
        demo_plugin "''/vm/b.raw''" "''a''"]
    by (simp add: paths demo_iq_def demo_sys_def demo_entity_def emit_def)
qed

section \<open>Presence around convert and delete\<close>

lemma convert_restores_presence:
  "xmppstatus (snd (iq_convert sy pl q e)) = xmppstatus e
   \<and> xmppstatusshow (snd (iq_convert sy pl q e)) = xmppstatusshow e"
  by (simp add: iq_convert_def Let_def change_presence_def emit_def push_change_def shout_def
      log_info_def split: option.splits prod.splits)

lemma delete_success_restores_presence:
  assumes "fst (iq_delete sy pl q e) = Result nodes"
  shows "xmppstatus (snd (iq_delete sy pl q e)) = xmppstatus e
   \<and> xmppstatusshow (snd (iq_delete sy pl q e)) = xmppstatusshow e"
  using assms
  by (auto simp: iq_delete_def Let_def change_presence_def emit_def push_change_def shout_def
      log_info_def build_error_iq_def split: option.splits prod.splits)

lemma delete_unlink_fails:
  assumes "archipel q = Some a" "a ''name'' = Some disk_name"
    and "os_unlink sy (world e) (secure_disk_path (folder e) disk_name) = None"
  shows "iq_delete sy pl q e
     = (Error OSError (- 3002),
        emit (Unlink (secure_disk_path (folder e) disk_name))
          (change_presence ''dnd'' ''Deleting a drive...'' e))"
  using assms
  by (simp add: iq_delete_def build_error_iq_def ARCHIPEL_ERROR_CODE_DRIVES_DELETE_def Let_def
      change_presence_def emit_def)

text \<open>
  Claim C1, where it fails. \<open>iq_convert\<close> restores the presence on every path
  (\<open>convert_restores_presence\<close>) and \<open>iq_delete\<close> on success
  (\<open>delete_success_restores_presence\<close>), but the \<^verbatim>\<open>except\<close> branch of \<open>iq_delete\<close>
  (lines 274 and 275) has no \<^verbatim>\<open>change_presence\<close>: when \<^verbatim>\<open>os.unlink\<close> raises, the reply is
  the error with code -3002 and the entity keeps the status \<open>Deleting a drive...\<close> with
  show level \<open>dnd\<close>, whatever its presence was before.
\<close>

theorem delete_failure_keeps_busy:
  assumes "archipel q = Some a" "a ''name'' = Some disk_name"
    and "os_unlink sy (world e) (secure_disk_path (folder e) disk_name) = None"
  shows "fst (iq_delete sy pl q e) = Error OSError (- 3002)
     \<and> xmppstatus (snd (iq_delete sy pl q e)) = ''Deleting a drive...''
     \<and> xmppstatusshow (snd (iq_delete sy pl q e)) = ''dnd''"
  using delete_unlink_fails [OF assms]
  by (simp add: change_presence_def emit_def)

theorem delete_failure_keeps_busy_witness:
  "os_unlink demo_sys (world demo_entity) (secure_disk_path (folder demo_entity) ''missing.qcow2'') = None
   \<and> xmppstatus demo_entity = ''Online'' \<and> xmppstatusshow demo_entity = ''chat''
   \<and> fst (iq_delete demo_sys demo_plugin (demo_iq [(''name'', ''missing.qcow2'')]) demo_entity)
       = Error OSError (- 3002)
   \<and> xmppstatus (snd (iq_delete demo_sys demo_plugin (demo_iq [(''name'', ''missing.qcow2'')]) demo_entity))
       = ''Deleting a drive...''
   \<and> xmppstatusshow (snd (iq_delete demo_sys demo_plugin (demo_iq [(''name'', ''missing.qcow2'')]) demo_entity))
       = ''dnd''"
proof -
  have p: "secure_disk_path ''/vm'' ''missing.qcow2'' = ''/vm/missing.qcow2''"
    by (simp add: secure_disk_path_def py_split_def)
  show ?thesis
    using delete_failure_keeps_busy
      [of "demo_iq [(''name'', ''missing.qcow2'')]" "map_of [(''name'', ''missing.qcow2'')]"
        "''missing.qcow2''" demo_sys demo_entity demo_plugin]
    by (simp add: p demo_iq_def demo_sys_def demo_entity_def)
qed

section \<open>Oversized create requests\<close>

lemma size_guard_too_big:
  assumes "py_int sy s = Some n"
    and "(u = ''M'' \<and> 1000000000 \<le> n) \<or> (u = ''G'' \<and> 10000 \<le> n)"
  shows "\<exists>ex. size_guard sy (Some u) (Some s) = Some ex"
  using assms by (auto simp: size_guard_def)

text \<open>
  Claim C7. A create request whose unit is \<open>M\<close> and whose size \<^verbatim>\<open>int()\<close> reads as at least
  1,000,000,000, or whose unit is \<open>G\<close> and whose size \<^verbatim>\<open>int()\<close> reads as at least 10,000, is
  answered with an error of code -3001, and the entity is returned as it was: the world
  is untouched and the trace has no new entry, so no file is created and the image tool
  is not called. The size of a request is a text; \<open>py_int sy\<close> is whatever \<^verbatim>\<open>int()\<close> makes
  of it, so the theorem covers every text that Python reads as such a number.
\<close>

theorem create_rejects_oversized:
  assumes "archipel q = Some a"
    and "a ''size'' = Some s" and "py_int sy s = Some n"
    and "(a ''unit'' = Some ''M'' \<and> 1000000000 \<le> n) \<or> (a ''unit'' = Some ''G'' \<and> 10000 \<le> n)"
  shows "\<exists>ex. iq_create sy pl q e = (Error ex (- 3001), e)"
proof -
  obtain u where u: "a ''unit'' = Some u"
    and big: "(u = ''M'' \<and> 1000000000 \<le> n) \<or> (u = ''G'' \<and> 10000 \<le> n)"
    using assms(4) by auto
  obtain ex where ex: "size_guard sy (Some u) (Some s) = Some ex"
    using size_guard_too_big [OF assms(3) big] by blast
  show ?thesis
    using assms(1,2) u ex
    by (auto simp: iq_create_def build_error_iq_def ARCHIPEL_ERROR_CODE_DRIVES_CREATE_def Let_def
        split: option.splits)
qed

theorem create_rejects_oversized_witness:
  "py_int demo_sys ''1000000000'' = Some 1000000000
   \<and> (\<exists>ex. iq_create demo_sys demo_plugin
        (demo_iq [(''name'', ''big''), (''format'', ''raw''), (''size'', ''1000000000''), (''unit'', ''M'')])
        demo_entity = (Error ex (- 3001), demo_entity))
   \<and> py_int demo_sys ''10000'' = Some 10000
   \<and> (\<exists>ex. iq_create demo_sys demo_plugin
        (demo_iq [(''name'', ''big''), (''format'', ''raw''), (''size'', ''10000''), (''unit'', ''G'')])
        demo_entity = (Error ex (- 3001), demo_entity))"
proof -
  have m: "py_int demo_sys ''1000000000'' = Some 1000000000"
    and g: "py_int demo_sys ''10000'' = Some 10000"
    by (simp_all add: demo_sys_def decimal_def digit_val_def)
  have "\<exists>ex. iq_create demo_sys demo_plugin
        (demo_iq [(''name'', ''big''), (''format'', ''raw''), (''size'', ''1000000000''), (''unit'', ''M'')])
        demo_entity = (Error ex (- 3001), demo_entity)"
    using m create_rejects_oversized
      [of "demo_iq [(''name'', ''big''), (''format'', ''raw''), (''size'', ''1000000000''), (''unit'', ''M'')]"
        "map_of [(''name'', ''big''), (''format'', ''raw''), (''size'', ''1000000000''), (''unit'', ''M'')]"
        "''1000000000''" demo_sys 1000000000 demo_plugin demo_entity]
    by (simp add: demo_iq_def)
  moreover have "\<exists>ex. iq_create demo_sys demo_plugin
        (demo_iq [(''name'', ''big''), (''format'', ''raw''), (''size'', ''10000''), (''unit'', ''G'')])
        demo_entity = (Error ex (- 3001), demo_entity)"
    using g create_rejects_oversized
      [of "demo_iq [(''name'', ''big''), (''format'', ''raw''), (''size'', ''10000''), (''unit'', ''G'')]"
        "map_of [(''name'', ''big''), (''format'', ''raw''), (''size'', ''10000''), (''unit'', ''G'')]"
        "''10000''" demo_sys 10000 demo_plugin demo_entity]
    by (simp add: demo_iq_def)
  ultimately show ?thesis using m g by blast
qed

section \<open>Requests with an unknown action\<close>

text \<open>
  Claim C10, as the code has it. For a request whose action is none of create, delete,
  get, getiso, convert and rename, on a machine that is not migrating, no handler runs
  and \<open>process_iq\<close> itself sends nothing. What the caller gets is decided by the
  permission check of line 114 alone: when it lets the request through, the method
  falls off its end with the entity unchanged (no \<open>Send\<close> in the trace); when it refuses,
  its error is the one reply.
\<close>

theorem unknown_action_dropped:
  assumes "check_acp sy q = Inr action"
    and "\<not> is_migrating e"
    and "action \<notin> set [Some ''create'', Some ''delete'', Some ''get'', Some ''getiso'',
                         Some ''convert'', Some ''rename'']"
  shows "process_iq sy pl q e
     = (case check_perm sy q action ''drives_'' of
          None \<Rightarrow> (Returned, e)
        | Some ex \<Rightarrow> (NodeProcessed, emit (Send (Error ex (- 1))) e))"
  using assms by (simp add: process_iq_def build_error_iq_def split: option.splits)

theorem unknown_action_dropped_witness:
  "check_acp demo_sys (demo_iq [(''action'', ''resize'')]) = Inr (Some ''resize'')
   \<and> \<not> is_migrating demo_entity
   \<and> check_perm demo_sys (demo_iq [(''action'', ''resize'')]) (Some ''resize'') ''drives_'' = None
   \<and> process_iq demo_sys demo_plugin (demo_iq [(''action'', ''resize'')]) demo_entity
       = (Returned, demo_entity)
   \<and> check_acp demo_sys (demo_iq []) = Inr None
   \<and> process_iq demo_sys demo_plugin (demo_iq []) demo_entity = (Returned, demo_entity)"
  using unknown_action_dropped
    [of demo_sys "demo_iq [(''action'', ''resize'')]" "Some ''resize''" demo_entity demo_plugin]
    unknown_action_dropped [of demo_sys "demo_iq []" None demo_entity demo_plugin]
  by (simp add: demo_sys_def demo_iq_def demo_entity_def)

text \<open>
  The claim as it is written, with no word on the permission check, fails: the same
  request on the same machine, refused by \<open>check_perm\<close>, is answered with an error.
\<close>

theorem unknown_action_refused_counterexample:
  "check_acp demo_sys_refusing (demo_iq [(''action'', ''resize'')]) = Inr (Some ''resize'')
   \<and> ''resize'' \<notin> set [''create'', ''delete'', ''get'', ''getiso'', ''convert'', ''rename'']
   \<and> \<not> is_migrating demo_entity
   \<and> process_iq demo_sys_refusing demo_plugin (demo_iq [(''action'', ''resize'')]) demo_entity
       = (NodeProcessed,
          demo_entity\<lparr>trace := [Send (Error (Exception [''permission denied'']) (- 1))]\<rparr>)"
  by (simp add: process_iq_def build_error_iq_def demo_sys_refusing_def demo_sys_def demo_iq_def
      demo_entity_def emit_def)

section \<open>The definition document after convert\<close>

lemma retarget_None:
  "retarget p f d devs = None \<Longrightarrow> list_all (\<lambda>x. device_source x \<noteq> Some p) devs"
  by (induction p f d devs rule: retarget.induct) (auto split: option.splits if_splits)

lemma retarget_Some:
  "retarget p f d devs = Some devs' \<Longrightarrow>
     \<exists>i<length devs. device_source (devs ! i) = Some p
        \<and> (\<forall>j<i. device_source (devs ! j) \<noteq> Some p)
        \<and> devs' = devs[i := rewrite_device f d (devs ! i)]"
proof (induction p f d devs arbitrary: devs' rule: retarget.induct)
  case (1 path format disk_path)
  then show ?case by simp
next
  case (2 path format disk_path x ds)
  then obtain ds' where r: "retarget path format disk_path ds = Some ds'" and eq: "devs' = Other x # ds'"
    by auto
  from "2.IH" [OF r] obtain i where i: "i < length ds" "device_source (ds ! i) = Some path"
    "\<forall>j<i. device_source (ds ! j) \<noteq> Some path" "ds' = ds[i := rewrite_device format disk_path (ds ! i)]"
    by blast
  have "\<forall>j<Suc i. device_source ((Other x # ds) ! j) \<noteq> Some path"
    using i(3) by (auto simp: nth_Cons split: nat.splits)
  with i eq show ?case
    by (intro exI [of _ "Suc i"]) simp
next
  case (3 path format disk_path d ds)
  show ?case
  proof (cases "source_file d = Some (Some path)")
    case True
    with "3.prems" have "devs' = Disk (rewrite_drive format disk_path d) # ds" by simp
    with True show ?thesis by (intro exI [of _ 0]) simp
  next
    case False
    with "3.prems" obtain ds' where r: "retarget path format disk_path ds = Some ds'"
      and eq: "devs' = Disk d # ds'"
      by (auto split: option.splits if_splits)
    have "\<exists>i<length ds. device_source (ds ! i) = Some path
        \<and> (\<forall>j<i. device_source (ds ! j) \<noteq> Some path)
        \<and> ds' = ds[i := rewrite_device format disk_path (ds ! i)]"
    proof (cases "source_file d")
      case None
      from "3.IH"(1) [OF None r] show ?thesis .
    next
      case (Some f)
      with False have "f \<noteq> Some path" by auto
      from "3.IH"(2) [OF Some this r] show ?thesis .
    qed
    then obtain i where i: "i < length ds" "device_source (ds ! i) = Some path"
      "\<forall>j<i. device_source (ds ! j) \<noteq> Some path" "ds' = ds[i := rewrite_device format disk_path (ds ! i)]"
      by blast
    have "device_source (Disk d) \<noteq> Some path"
      using False by (auto split: option.splits)
    then have "\<forall>j<Suc i. device_source ((Disk d # ds) ! j) \<noteq> Some path"
      using i(3) by (auto simp: nth_Cons split: nat.splits)
    with i eq show ?thesis
      by (intro exI [of _ "Suc i"]) simp
  qed
qed

lemma convert_sync_ok:
  assumes "convert_sync sy p f d e5 = (None, e6)"
  shows "\<exists>doc devs. vm_definition e5 = Some doc \<and> devices doc = Some devs
     \<and> vm_definition e6
         = Some (case retarget p f d devs of None \<Rightarrow> doc | Some devs' \<Rightarrow> doc\<lparr>devices := Some devs'\<rparr>)"
  using assms
  by (auto simp: convert_sync_def Let_def emit_def split: option.splits)

lemma convert_success_definition:
  assumes "archipel q = Some a" "a ''path'' = Some p" "a ''format'' = Some f"
    and "iq_convert sy pl q e = (Result nodes, e')"
  shows "\<exists>doc devs. vm_definition e = Some doc \<and> devices doc = Some devs
     \<and> vm_definition e'
         = Some (case retarget p f (convert_disk_path p f) devs of
                   None \<Rightarrow> doc | Some devs' \<Rightarrow> doc\<lparr>devices := Some devs'\<rparr>)"
proof -
  from assms obtain e5 e6 where sync: "convert_sync sy p f (convert_disk_path p f) e5 = (None, e6)"
    and e5: "vm_definition e5 = vm_definition e" and e': "vm_definition e' = vm_definition e6"
    by (auto simp: iq_convert_def Let_def build_error_iq_def change_presence_def emit_def
        push_change_def shout_def log_info_def split: option.splits prod.splits if_splits)
  from convert_sync_ok [OF sync] e5 e' show ?thesis by simp
qed

text \<open>
  Claim C8. After a successful convert of the path \<open>p\<close> to the format \<open>f\<close>, the definition
  document is the one from before, with at most one entry of its device list replaced:
  either no disk entry has \<open>p\<close> as its source file and the document is unchanged, or the
  first such entry (index \<open>i\<close>, no earlier entry has that source file) has its source file
  set to the destination and, when it has a \<^verbatim>\<open>driver\<close> child, its driver type set to \<open>f\<close>.
  The list update \<open>devs[i := _]\<close> leaves every other entry as it was, later entries with
  the same source file included, and the rest of the document is not touched.
\<close>

theorem convert_rewrites_first_match_only:
  assumes "archipel q = Some a" "a ''path'' = Some p" "a ''format'' = Some f"
    and "iq_convert sy pl q e = (Result nodes, e')"
  shows "\<exists>doc devs. vm_definition e = Some doc \<and> devices doc = Some devs
     \<and> ((list_all (\<lambda>x. device_source x \<noteq> Some p) devs \<and> vm_definition e' = Some doc)
        \<or> (\<exists>i d0. i < length devs \<and> devs ! i = Disk d0 \<and> source_file d0 = Some (Some p)
              \<and> (\<forall>j<i. device_source (devs ! j) \<noteq> Some p)
              \<and> vm_definition e'
                  = Some (doc\<lparr>devices := Some (devs
                       [i := Disk (d0\<lparr>driver_type := (if driver_type d0 = None then None else Some (Some f)),
                                       source_file := Some (Some (convert_disk_path p f))\<rparr>)])\<rparr>)))"
proof -
  obtain doc devs where doc: "vm_definition e = Some doc" "devices doc = Some devs"
    and e': "vm_definition e'
         = Some (case retarget p f (convert_disk_path p f) devs of
                   None \<Rightarrow> doc | Some devs' \<Rightarrow> doc\<lparr>devices := Some devs'\<rparr>)"
    using convert_success_definition [OF assms] by blast
  show ?thesis
  proof (cases "retarget p f (convert_disk_path p f) devs")
    case None
    with e' retarget_None [OF None] doc show ?thesis by auto
  next
    case (Some devs')
    from retarget_Some [OF Some] obtain i where i: "i < length devs"
      "device_source (devs ! i) = Some p" "\<forall>j<i. device_source (devs ! j) \<noteq> Some p"
      "devs' = devs[i := rewrite_device f (convert_disk_path p f) (devs ! i)]"
      by blast
    from i(2) obtain d0 where d0: "devs ! i = Disk d0" "source_file d0 = Some (Some p)"
      by (cases "devs ! i") (auto split: option.splits)
    have rw: "rewrite_device f (convert_disk_path p f) (devs ! i)
        = Disk (d0\<lparr>driver_type := (if driver_type d0 = None then None else Some (Some f)),
                   source_file := Some (Some (convert_disk_path p f))\<rparr>)"
      using d0 by (cases "driver_type d0") (simp_all add: rewrite_drive_def)
    have "vm_definition e'
        = Some (doc\<lparr>devices := Some (devs
             [i := Disk (d0\<lparr>driver_type := (if driver_type d0 = None then None else Some (Some f)),
                             source_file := Some (Some (convert_disk_path p f))\<rparr>)])\<rparr>)"
      using e' Some i(4) rw by simp
    with i(1,3) d0 have "\<exists>i d0. i < length devs \<and> devs ! i = Disk d0 \<and> source_file d0 = Some (Some p)
              \<and> (\<forall>j<i. device_source (devs ! j) \<noteq> Some p)
              \<and> vm_definition e'
                  = Some (doc\<lparr>devices := Some (devs
                       [i := Disk (d0\<lparr>driver_type := (if driver_type d0 = None then None else Some (Some f)),
                                       source_file := Some (Some (convert_disk_path p f))\<rparr>)])\<rparr>)"
      by blast
    with doc show ?thesis by blast
  qed
qed

lemma demo_convert_path: "convert_disk_path ''/vm/a.qcow2'' ''raw'' = ''/vm/a.raw''"
  by (simp add: convert_disk_path_def py_replace_def py_split_def)

lemma demo_convert_run:
  "fst (iq_convert demo_sys demo_plugin
          (demo_iq [(''path'', ''/vm/a.qcow2''), (''format'', ''raw'')]) demo_entity) = Result []"
  "vm_definition (snd (iq_convert demo_sys demo_plugin
          (demo_iq [(''path'', ''/vm/a.qcow2''), (''format'', ''raw'')]) demo_entity))
     = Some (demo_doc\<lparr>devices := Some
         [Other ''interface'',
          Disk ((demo_drive (Some ''file'') ''/vm/a.raw'')\<lparr>driver_type := Some (Some ''raw'')\<rparr>),
          Disk (demo_drive None ''/vm/a.qcow2'')]\<rparr>)"
  by (simp_all add: iq_convert_def Let_def demo_convert_path demo_sys_def demo_plugin_def demo_iq_def
      demo_entity_def demo_doc_def demo_drive_def change_presence_def emit_def convert_sync_def
      rewrite_drive_def push_change_def shout_def log_info_def)

theorem convert_rewrites_first_match_only_witness:
  "iq_convert demo_sys demo_plugin
       (demo_iq [(''path'', ''/vm/a.qcow2''), (''format'', ''raw'')]) demo_entity
     = (Result [], snd (iq_convert demo_sys demo_plugin
          (demo_iq [(''path'', ''/vm/a.qcow2''), (''format'', ''raw'')]) demo_entity))
   \<and> vm_definition (snd (iq_convert demo_sys demo_plugin
          (demo_iq [(''path'', ''/vm/a.qcow2''), (''format'', ''raw'')]) demo_entity))
       = Some (demo_doc\<lparr>devices := Some
           [Other ''interface'',
            Disk ((demo_drive (Some ''file'') ''/vm/a.raw'')\<lparr>driver_type := Some (Some ''raw'')\<rparr>),
            Disk (demo_drive None ''/vm/a.qcow2'')]\<rparr>)
   \<and> (\<exists>doc devs. vm_definition demo_entity = Some doc \<and> devices doc = Some devs
     \<and> ((list_all (\<lambda>x. device_source x \<noteq> Some ''/vm/a.qcow2'') devs
          \<and> vm_definition (snd (iq_convert demo_sys demo_plugin
                (demo_iq [(''path'', ''/vm/a.qcow2''), (''format'', ''raw'')]) demo_entity)) = Some doc)
        \<or> (\<exists>i d0. i < length devs \<and> devs ! i = Disk d0 \<and> source_file d0 = Some (Some ''/vm/a.qcow2'')
              \<and> (\<forall>j<i. device_source (devs ! j) \<noteq> Some ''/vm/a.qcow2'')
              \<and> vm_definition (snd (iq_convert demo_sys demo_plugin
                    (demo_iq [(''path'', ''/vm/a.qcow2''), (''format'', ''raw'')]) demo_entity))
                  = Some (doc\<lparr>devices := Some (devs
                       [i := Disk (d0\<lparr>driver_type := (if driver_type d0 = None then None else Some (Some ''raw'')),
                                       source_file := Some (Some (convert_disk_path ''/vm/a.qcow2'' ''raw''))\<rparr>)])\<rparr>))))"
proof -
  let ?q = "demo_iq [(''path'', ''/vm/a.qcow2''), (''format'', ''raw'')]"
  have run: "iq_convert demo_sys demo_plugin ?q demo_entity
      = (Result [], snd (iq_convert demo_sys demo_plugin ?q demo_entity))"
    using demo_convert_run(1) by (simp add: prod_eq_iff)
  have a: "archipel ?q = Some (map_of [(''path'', ''/vm/a.qcow2''), (''format'', ''raw'')])"
    by (simp add: demo_iq_def)
  from convert_rewrites_first_match_only [OF a _ _ run, of "''/vm/a.qcow2''" "''raw''"]
    run demo_convert_run(2)
  show ?thesis by simp
qed

section \<open>The definition document after delete\<close>

lemma undefine_loop_ok:
  "undefine_loop p devs = (None, devs', b) \<Longrightarrow>
     devs' = filter (\<lambda>x. \<not> is_file_disk_of p x) devs \<and> b = (\<not> list_all (\<lambda>x. \<not> is_file_disk_of p x) devs)"
  by (induction p devs arbitrary: devs' b rule: undefine_loop.induct)
     (auto split: option.splits if_splits prod.splits)

lemma delete_sync_ok:
  assumes "delete_sync sy p (Some ''yes'') e3 = (None, e4)"
  shows "(vm_definition e3 = None \<and> vm_definition e4 = None \<and> trace e4 = trace e3)
     \<or> (\<exists>doc devs. vm_definition e3 = Some doc \<and> devices doc = Some devs
          \<and> vm_definition e4 = Some (doc\<lparr>devices := Some (filter (\<lambda>x. \<not> is_file_disk_of p x) devs)\<rparr>)
          \<and> trace e4 = trace e3 @
               (if \<exists>x\<in>set devs. is_file_disk_of p x
                then [DefineXML (doc\<lparr>devices := Some (filter (\<lambda>x. \<not> is_file_disk_of p x) devs)\<rparr>),
                      PushChange ''virtualmachine:definition'' ''defined'']
                else []))"
proof (cases "vm_definition e3")
  case None
  with assms show ?thesis by (simp add: delete_sync_def)
next
  case (Some doc)
  with assms obtain devs where devs: "devices doc = Some devs"
    by (auto simp: delete_sync_def split: option.splits)
  obtain err devs' b where loop: "undefine_loop p devs = (err, devs', b)"
    by (cases "undefine_loop p devs") auto
  from assms Some devs loop have err: "err = None"
    by (auto simp: delete_sync_def Let_def split: option.splits if_splits)
  from undefine_loop_ok [OF loop [unfolded err]]
  have devs': "devs' = filter (\<lambda>x. \<not> is_file_disk_of p x) devs"
    and b: "b = (\<not> list_all (\<lambda>x. \<not> is_file_disk_of p x) devs)" by simp_all
  have b': "b = (\<exists>x\<in>set devs. is_file_disk_of p x)"
    using b by (auto simp: list_all_iff)
  from assms Some devs loop err
  have "vm_definition e4 = Some (doc\<lparr>devices := Some devs'\<rparr>)
     \<and> trace e4 = trace e3 @
          (if b then [DefineXML (doc\<lparr>devices := Some devs'\<rparr>),
                      PushChange ''virtualmachine:definition'' ''defined''] else [])"
    by (auto simp: delete_sync_def Let_def emit_def push_change_def split: option.splits if_splits)
  with Some devs devs' b' show ?thesis by simp
qed

lemma delete_success_sync:
  assumes "archipel q = Some a" "a ''name'' = Some n" "a ''undefine'' = Some ''yes''"
    and "iq_delete sy pl q e = (Result nodes, e')"
  shows "\<exists>e3 e4. delete_sync sy (secure_disk_path (folder e) n) (Some ''yes'') e3 = (None, e4)
     \<and> vm_definition e3 = vm_definition e
     \<and> trace e3 = trace e @ [Presence ''dnd'' ''Deleting a drive...'', Unlink (secure_disk_path (folder e) n)]
     \<and> vm_definition e' = vm_definition e4
     \<and> trace e' = trace e4 @
         [Presence (xmppstatusshow e) (xmppstatus e),
          LogInfo (''disk '' @ secure_disk_path (folder e) n @ '' deleted''),
          PushChange ''disk'' ''deleted'',
          Shout ''disk'' (''I've just deleted the hard drive named '' @ n @ ''.'')]"
proof -
  let ?p = "secure_disk_path (folder e) n"
  let ?e2 = "emit (Unlink ?p) (change_presence ''dnd'' ''Deleting a drive...'' e)"
  from assms obtain w e4 where sync: "delete_sync sy ?p (Some ''yes'') (?e2\<lparr>world := w\<rparr>) = (None, e4)"
    and e': "e' = shout ''disk'' (''I've just deleted the hard drive named '' @ n @ ''.'')
                   (push_change ''disk'' ''deleted''
                      (log_info (''disk '' @ ?p @ '' deleted'')
                         (change_presence (xmppstatusshow e) (xmppstatus e) e4)))"
    by (auto simp: iq_delete_def Let_def build_error_iq_def split: option.splits prod.splits)
  have "vm_definition (?e2\<lparr>world := w\<rparr>) = vm_definition e"
    and "trace (?e2\<lparr>world := w\<rparr>) = trace e @ [Presence ''dnd'' ''Deleting a drive...'', Unlink ?p]"
    by (simp_all add: change_presence_def emit_def)
  moreover have "vm_definition e' = vm_definition e4"
    and "trace e' = trace e4 @
         [Presence (xmppstatusshow e) (xmppstatus e),
          LogInfo (''disk '' @ ?p @ '' deleted''),
          PushChange ''disk'' ''deleted'',
          Shout ''disk'' (''I've just deleted the hard drive named '' @ n @ ''.'')]"
    unfolding e' by (simp_all add: change_presence_def emit_def push_change_def shout_def log_info_def)
  ultimately show ?thesis using sync by blast
qed

text \<open>
  Claim C6, as the code has it. After a successful delete with the undefine flag \<open>yes\<close>,
  the device list of the definition document is the one from before without the disk
  entries whose \<^verbatim>\<open>type\<close> attribute is \<open>file\<close> and whose source file is the deleted path;
  every other entry stays, in order, and the rest of the document is not touched. The
  trace of the handler has the commit (\<open>DefineXML\<close> of the new document) and the
  definition-changed notification exactly when the old list had such an entry. A
  machine without a definition document keeps none and commits nothing.
\<close>

theorem delete_undefines_file_disks:
  assumes "archipel q = Some a" "a ''name'' = Some n" "a ''undefine'' = Some ''yes''"
    and "iq_delete sy pl q e = (Result nodes, e')"
  shows "(vm_definition e = None \<and> vm_definition e' = None
          \<and> trace e' = trace e
               @ [Presence ''dnd'' ''Deleting a drive...'', Unlink (secure_disk_path (folder e) n)]
               @ [Presence (xmppstatusshow e) (xmppstatus e),
                  LogInfo (''disk '' @ secure_disk_path (folder e) n @ '' deleted''),
                  PushChange ''disk'' ''deleted'',
                  Shout ''disk'' (''I've just deleted the hard drive named '' @ n @ ''.'')])
     \<or> (\<exists>doc devs. vm_definition e = Some doc \<and> devices doc = Some devs
          \<and> vm_definition e'
              = Some (doc\<lparr>devices := Some (filter (\<lambda>x. \<not> is_file_disk_of (secure_disk_path (folder e) n) x) devs)\<rparr>)
          \<and> trace e' = trace e
               @ [Presence ''dnd'' ''Deleting a drive...'', Unlink (secure_disk_path (folder e) n)]
               @ (if \<exists>x\<in>set devs. is_file_disk_of (secure_disk_path (folder e) n) x
                  then [DefineXML (doc\<lparr>devices := Some (filter (\<lambda>x. \<not> is_file_disk_of (secure_disk_path (folder e) n) x) devs)\<rparr>),
                        PushChange ''virtualmachine:definition'' ''defined'']
                  else [])
               @ [Presence (xmppstatusshow e) (xmppstatus e),
                  LogInfo (''disk '' @ secure_disk_path (folder e) n @ '' deleted''),
                  PushChange ''disk'' ''deleted'',
                  Shout ''disk'' (''I've just deleted the hard drive named '' @ n @ ''.'')])"
proof -
  obtain e3 e4 where sync: "delete_sync sy (secure_disk_path (folder e) n) (Some ''yes'') e3 = (None, e4)"
    and e3: "vm_definition e3 = vm_definition e"
      "trace e3 = trace e @ [Presence ''dnd'' ''Deleting a drive...'', Unlink (secure_disk_path (folder e) n)]"
    and e': "vm_definition e' = vm_definition e4"
      "trace e' = trace e4 @
         [Presence (xmppstatusshow e) (xmppstatus e),
          LogInfo (''disk '' @ secure_disk_path (folder e) n @ '' deleted''),
          PushChange ''disk'' ''deleted'',
          Shout ''disk'' (''I've just deleted the hard drive named '' @ n @ ''.'')]"
    using delete_success_sync [OF assms] by blast
  from delete_sync_ok [OF sync] show ?thesis
    unfolding e3 e' by (elim disjE exE conjE) simp_all
qed

lemma demo_delete_path: "secure_disk_path ''/vm'' ''a.qcow2'' = ''/vm/a.qcow2''"
  by (simp add: secure_disk_path_def py_split_def)

lemma demo_delete_run:
  "fst (iq_delete demo_sys demo_plugin
          (demo_iq [(''name'', ''a.qcow2''), (''undefine'', ''yes'')]) demo_entity) = Result []"
  "vm_definition (snd (iq_delete demo_sys demo_plugin
          (demo_iq [(''name'', ''a.qcow2''), (''undefine'', ''yes'')]) demo_entity))
     = Some (demo_doc\<lparr>devices := Some [Other ''interface'', Disk (demo_drive None ''/vm/a.qcow2'')]\<rparr>)"
  by (simp_all add: iq_delete_def Let_def demo_delete_path demo_sys_def demo_plugin_def demo_iq_def
      demo_entity_def demo_doc_def demo_drive_def change_presence_def emit_def delete_sync_def
      push_change_def shout_def log_info_def)

theorem delete_undefines_file_disks_witness:
  "iq_delete demo_sys demo_plugin
       (demo_iq [(''name'', ''a.qcow2''), (''undefine'', ''yes'')]) demo_entity
     = (Result [], snd (iq_delete demo_sys demo_plugin
          (demo_iq [(''name'', ''a.qcow2''), (''undefine'', ''yes'')]) demo_entity))
   \<and> vm_definition (snd (iq_delete demo_sys demo_plugin
          (demo_iq [(''name'', ''a.qcow2''), (''undefine'', ''yes'')]) demo_entity))
       = Some (demo_doc\<lparr>devices := Some
           (filter (\<lambda>x. \<not> is_file_disk_of ''/vm/a.qcow2'' x)
              [Other ''interface'', Disk (demo_drive (Some ''file'') ''/vm/a.qcow2''),
               Disk (demo_drive None ''/vm/a.qcow2'')])\<rparr>)
   \<and> DefineXML (demo_doc\<lparr>devices := Some [Other ''interface'', Disk (demo_drive None ''/vm/a.qcow2'')]\<rparr>)
       \<in> set (trace (snd (iq_delete demo_sys demo_plugin
          (demo_iq [(''name'', ''a.qcow2''), (''undefine'', ''yes'')]) demo_entity)))"
proof -
  let ?q = "demo_iq [(''name'', ''a.qcow2''), (''undefine'', ''yes'')]"
  have run: "iq_delete demo_sys demo_plugin ?q demo_entity
      = (Result [], snd (iq_delete demo_sys demo_plugin ?q demo_entity))"
    using demo_delete_run(1) by (simp add: prod_eq_iff)
  have a: "archipel ?q = Some (map_of [(''name'', ''a.qcow2''), (''undefine'', ''yes'')])"
    by (simp add: demo_iq_def)
  from delete_undefines_file_disks [OF a _ _ run, of "''a.qcow2''"] run
  show ?thesis
    by (simp add: demo_delete_path demo_entity_def demo_doc_def demo_drive_def)
qed

text \<open>
  The claim as it is written speaks of every disk entry whose source file is the deleted
  path. The loop only visits the entries that \<^verbatim>\<open>getTags('disk', attrs={'type': 'file'})\<close>
  selects: after this successful delete of \<open>/vm/a.qcow2\<close> with undefine \<open>yes\<close>, the disk
  entry without a \<^verbatim>\<open>type\<close> attribute still names that path as its source file.
\<close>

theorem delete_keeps_untyped_disk_counterexample:
  "fst (iq_delete demo_sys demo_plugin
          (demo_iq [(''name'', ''a.qcow2''), (''undefine'', ''yes'')]) demo_entity) = Result []
   \<and> secure_disk_path (folder demo_entity) ''a.qcow2'' = ''/vm/a.qcow2''
   \<and> map_option devices (vm_definition (snd (iq_delete demo_sys demo_plugin
          (demo_iq [(''name'', ''a.qcow2''), (''undefine'', ''yes'')]) demo_entity)))
       = Some (Some [Other ''interface'', Disk (demo_drive None ''/vm/a.qcow2'')])
   \<and> device_source (Disk (demo_drive None ''/vm/a.qcow2'')) = Some ''/vm/a.qcow2''"
  using demo_delete_run
  by (simp add: demo_delete_path demo_entity_def demo_doc_def demo_drive_def)

section \<open>The sanitized name\<close>

lemma set_py_replace_ne: "set (py_replace_ne old new s) \<subseteq> set s \<union> set new"
proof (induction old new s rule: py_replace_ne.induct)
  case (1 old new)
  then show ?case by simp
next
  case (2 old new c cs)
  show ?case
  proof (cases "old \<noteq> [] \<and> prefix old (c # cs)")
    case True
    have "set (drop (length old) (c # cs)) \<subseteq> set (c # cs)" by (rule set_drop_subset)
    with True "2.IH"(1) show ?thesis by auto
  next
    case False
    with "2.IH"(2) show ?thesis by auto
  qed
qed

lemma py_replace_ne_removes_char:
  "c \<notin> set new \<Longrightarrow> c \<notin> set (py_replace_ne [c] new s)"
  by (induction "[c]" new s rule: py_replace_ne.induct) auto

lemma py_replace_ne_keeps_absent:
  "c \<notin> set s \<Longrightarrow> c \<notin> set new \<Longrightarrow> c \<notin> set (py_replace_ne old new s)"
  using set_py_replace_ne [of old new s] by auto

lemma dotdot_head:
  "prefix ''.'' (py_replace_ne ''..'' ''_'' s) \<Longrightarrow> prefix ''.'' s"
  by (cases s) (auto split: if_splits)

lemma sublist_dotdot_Cons:
  "sublist ''..'' (c # t) \<longleftrightarrow> (c = CHR ''.'' \<and> prefix ''.'' t) \<or> sublist ''..'' t"
  by (auto simp: sublist_Cons_right)

lemma py_replace_ne_no_dotdot_aux:
  "old = ''..'' \<Longrightarrow> new = ''_'' \<Longrightarrow> \<not> sublist ''..'' (py_replace_ne old new s)"
proof (induction old new s rule: py_replace_ne.induct)
  case (1 old new)
  then show ?case by simp
next
  case (2 old new c cs)
  note old = \<open>old = ''..''\<close> and new = \<open>new = ''_''\<close>
  show ?case
  proof (cases "prefix ''..'' (c # cs)")
    case True
    have cond: "old \<noteq> [] \<and> prefix old (c # cs)"
      unfolding old by (intro conjI) (simp, rule True)
    have "\<not> sublist ''..'' (py_replace_ne old new (drop (length old) (c # cs)))"
      by (rule "2.IH"(1) [OF cond old new])
    moreover have "py_replace_ne old new (c # cs)
        = new @ py_replace_ne old new (drop (length old) (c # cs))"
      by (subst py_replace_ne.simps(2)) (rule if_P [OF cond])
    ultimately show ?thesis unfolding new by (simp add: sublist_dotdot_Cons)
  next
    case False
    have cond: "\<not> (old \<noteq> [] \<and> prefix old (c # cs))"
      unfolding old using False by blast
    have ih: "\<not> sublist ''..'' (py_replace_ne old new cs)"
      by (rule "2.IH"(2) [OF cond old new])
    have "\<not> (c = CHR ''.'' \<and> prefix ''.'' (py_replace_ne old new cs))"
    proof
      assume a: "c = CHR ''.'' \<and> prefix ''.'' (py_replace_ne old new cs)"
      then have c: "c = CHR ''.''" and p: "prefix ''.'' (py_replace_ne ''..'' ''_'' cs)"
        unfolding old new by blast+
      from p have "prefix ''.'' cs" by (rule dotdot_head)
      then have "prefix ''..'' (c # cs)" unfolding c by simp
      with False show False by blast
    qed
    moreover have "py_replace_ne old new (c # cs) = c # py_replace_ne old new cs"
      by (subst py_replace_ne.simps(2)) (rule if_not_P [OF cond])
    ultimately show ?thesis using ih by (simp only: sublist_dotdot_Cons) blast
  qed
qed

lemma py_replace_ne_no_dotdot: "\<not> sublist ''..'' (py_replace_ne ''..'' ''_'' s)"
  by (rule py_replace_ne_no_dotdot_aux) simp_all

lemma sanitized_name_chars:
  "CHR '' '' \<notin> set (sanitized_name name)"
  "CHR ''/'' \<notin> set (sanitized_name name)"
  "\<not> sublist ''..'' (sanitized_name name)"
proof -
  let ?a = "py_replace_ne '' '' ''_'' name"
  let ?b = "py_replace_ne ''/'' ''_'' ?a"
  have s: "sanitized_name name = py_replace_ne ''..'' ''_'' ?b"
    by (simp add: sanitized_name_def py_replace_def)
  have a: "CHR '' '' \<notin> set ?a" by (rule py_replace_ne_removes_char) simp
  then have b: "CHR '' '' \<notin> set ?b" by (rule py_replace_ne_keeps_absent) simp
  have b': "CHR ''/'' \<notin> set ?b" by (rule py_replace_ne_removes_char) simp
  show "CHR '' '' \<notin> set (sanitized_name name)"
    unfolding s using b by (rule py_replace_ne_keeps_absent) simp
  show "CHR ''/'' \<notin> set (sanitized_name name)"
    unfolding s using b' by (rule py_replace_ne_keeps_absent) simp
  show "\<not> sublist ''..'' (sanitized_name name)"
    unfolding s by (rule py_replace_ne_no_dotdot)
qed

lemma py_split_from_absent:
  "c \<notin> set s \<Longrightarrow> py_split_from [c] cur s = [cur @ s]"
  by (induction s arbitrary: cur) auto

lemma py_split_absent: "c \<notin> set s \<Longrightarrow> py_split [c] s = [s]"
  by (simp add: py_split_def py_split_from_absent)

lemma confined_leaf:
  assumes "CHR ''/'' \<notin> set leaf"
  shows "confined fld (fld @ ''/'' @ leaf) \<longleftrightarrow> leaf \<noteq> ''..''"
proof -
  have "py_split ''/'' leaf = [leaf]" using assms by (rule py_split_absent)
  then show ?thesis by (simp add: confined_def)
qed

text \<open>
  Claim C9, as the code has it. For every name, the name that create and rename use
  has no space, no path separator and no \<open>..\<close> in it. A path built as folder, separator,
  sanitized name and extension stays inside the folder when the extension has no
  separator and is neither \<open>.\<close> nor \<open>..\<close>: the code sanitizes the name only, and what it
  appends (a dot and the format in create, a dot and the text after the last dot of the
  source path in rename) is the caller's.
\<close>

theorem sanitized_name_safe:
  "CHR '' '' \<notin> set (sanitized_name name)
   \<and> CHR ''/'' \<notin> set (sanitized_name name)
   \<and> \<not> sublist ''..'' (sanitized_name name)
   \<and> (CHR ''/'' \<notin> set ext \<and> ext \<noteq> ''.'' \<and> ext \<noteq> ''..''
        \<longrightarrow> confined fld (fld @ ''/'' @ sanitized_name name @ ext))"
proof -
  have "confined fld (fld @ ''/'' @ sanitized_name name @ ext)"
    if ext: "CHR ''/'' \<notin> set ext" "ext \<noteq> ''.''" "ext \<noteq> ''..''"
  proof -
    have "CHR ''/'' \<notin> set (sanitized_name name @ ext)"
      using sanitized_name_chars(2) [of name] ext(1) by simp
    moreover have "sanitized_name name @ ext \<noteq> ''..''"
    proof
      assume eq: "sanitized_name name @ ext = ''..''"
      then consider "sanitized_name name = []" "ext = ''..''"
        | "sanitized_name name = ''.''" "ext = ''.''"
        | "sanitized_name name = ''..''" "ext = []"
        by (auto simp: append_eq_Cons_conv)
      then show False
      proof cases
        case 1
        with ext(3) show False by simp
      next
        case 2
        with ext(2) show False by simp
      next
        case 3
        with sanitized_name_chars(3) [of name] show False by simp
      qed
    qed
    ultimately show ?thesis using confined_leaf [of "sanitized_name name @ ext" fld] by simp
  qed
  with sanitized_name_chars [of name] show ?thesis by blast
qed

theorem sanitized_name_safe_witness:
  "sanitized_name ''a b/../c'' = ''a_b___c''
   \<and> CHR ''/'' \<notin> set ''.qcow2'' \<and> ''.qcow2'' \<noteq> ''.'' \<and> ''.qcow2'' \<noteq> ''..''
   \<and> CHR '' '' \<notin> set (sanitized_name ''a b/../c'')
   \<and> CHR ''/'' \<notin> set (sanitized_name ''a b/../c'')
   \<and> \<not> sublist ''..'' (sanitized_name ''a b/../c'')
   \<and> confined ''/vm'' (''/vm'' @ ''/'' @ sanitized_name ''a b/../c'' @ ''.qcow2'')"
proof -
  have "sanitized_name ''a b/../c'' = ''a_b___c''"
    by (simp add: sanitized_name_def py_replace_def)
  moreover note sanitized_name_safe [of "''a b/../c''" "''.qcow2''" "''/vm''"]
  ultimately show ?thesis by simp
qed

text \<open>
  The claim as it is written promises this for every path built from the sanitized name
  and an extension. Rename with the new name \<open>.\<close> and a source path that ends in a dot
  (so that its extension is empty) builds the path \<open>/vm/..\<close>, the parent of the folder.
  Create with the name \<open>n\<close> and the format \<open>b/../../x\<close> hands the image tool the path
  \<open>/vm/n.b/../../x\<close>, which leaves the folder as well, and so does the empty name with
  the extension \<open>..\<close> (create with the format \<open>.\<close>).
\<close>

theorem sanitized_name_dot_counterexample:
  "sanitized_name ''.'' = ''.''
   \<and> rename_newpath ''/vm'' ''/vm/a.'' ''.'' = ''/vm'' @ ''/'' @ sanitized_name ''.'' @ ''.''
   \<and> rename_newpath ''/vm'' ''/vm/a.'' ''.'' = ''/vm/..''
   \<and> \<not> confined ''/vm'' (''/vm'' @ ''/'' @ sanitized_name ''.'' @ ''.'')
   \<and> trace (snd (iq_create demo_sys demo_plugin
         (demo_iq [(''name'', ''n''), (''size'', ''1''), (''unit'', ''G''), (''format'', ''b/../../x'')])
         demo_entity))
       = [Call [''qemu-img'', ''create'', ''-f'', ''b/../../x'',
                ''/vm'' @ ''/'' @ sanitized_name ''n'' @ ''.b/../../x'', ''1G'']]
   \<and> \<not> confined ''/vm'' (''/vm'' @ ''/'' @ sanitized_name ''n'' @ ''.b/../../x'')
   \<and> \<not> confined ''/vm'' (''/vm'' @ ''/'' @ sanitized_name [] @ ''..'')"
proof -
  have dot: "sanitized_name ''.'' = ''.''" and n: "sanitized_name ''n'' = ''n''"
    and empty: "sanitized_name [] = []"
    by (simp_all add: sanitized_name_def py_replace_def)
  have "rename_newpath ''/vm'' ''/vm/a.'' ''.'' = ''/vm/..''"
    by (simp add: dot rename_newpath_def os_path_join_def py_split_def suffix_def)
  moreover have "\<not> confined ''/vm'' ''/vm/..''"
    by (simp add: confined_def py_split_def)
  moreover have "\<not> confined ''/vm'' ''/vm/n.b/../../x''"
    by (simp add: confined_def py_split_def)
  moreover have "trace (snd (iq_create demo_sys demo_plugin
         (demo_iq [(''name'', ''n''), (''size'', ''1''), (''unit'', ''G''), (''format'', ''b/../../x'')])
         demo_entity))
       = [Call [''qemu-img'', ''create'', ''-f'', ''b/../../x'', ''/vm/n.b/../../x'', ''1G'']]"
    by (simp add: n iq_create_def Let_def size_guard_def create_call_def demo_sys_def demo_plugin_def
        demo_iq_def demo_entity_def decimal_def digit_val_def build_error_iq_def emit_def str_opt_def
        str_int_def)
  ultimately show ?thesis by (simp add: dot n empty)
qed

section \<open>The path that delete unlinks\<close>






section \<open>The destination of convert\<close>

text \<open>
  Claim C2, where it fails. Line 185 removes every occurrence of the extension from the
  path, not only the one after the last dot. Converting \<open>/vm/img.img\<close> to \<open>raw\<close> gives
  the destination \<open>/vm/.raw\<close>, where replacing the extension gives \<open>/vm/img.raw\<close>; the
  convert succeeds and the file that exists afterwards is \<open>/vm/.raw\<close>.
\<close>

theorem convert_destination_loses_base_name:
  "convert_disk_path ''/vm/img.img'' ''raw'' = ''/vm/.raw''
   \<and> replace_extension ''/vm/img.img'' ''raw'' = ''/vm/img.raw''
   \<and> fst (iq_convert demo_sys demo_plugin
            (demo_iq [(''path'', ''/vm/img.img''), (''format'', ''raw'')])
            (demo_entity\<lparr>world := [''/vm/img.img'']\<rparr>)) = Result []
   \<and> world (snd (iq_convert demo_sys demo_plugin
            (demo_iq [(''path'', ''/vm/img.img''), (''format'', ''raw'')])
            (demo_entity\<lparr>world := [''/vm/img.img'']\<rparr>))) = [''/vm/.raw'']"
proof -
  have p: "convert_disk_path ''/vm/img.img'' ''raw'' = ''/vm/.raw''"
    by (simp add: convert_disk_path_def py_replace_def py_split_def)
  have r: "replace_extension ''/vm/img.img'' ''raw'' = ''/vm/img.raw''"
    by (simp add: replace_extension_def py_split_def)
  show ?thesis
    by (simp add: p r iq_convert_def Let_def demo_sys_def demo_plugin_def demo_iq_def
        demo_entity_def demo_doc_def demo_drive_def change_presence_def emit_def convert_sync_def
        rewrite_drive_def push_change_def shout_def log_info_def)
qed

section \<open>The ISO inventory\<close>

lemma iso_nodes_filter:
  assumes "list_all (\<lambda>x. subprocess_popen sy w [''file'', probe_folder @ ''/'' @ x] \<noteq> None) entries"
  shows "iso_nodes sy w probe_folder tag_folder entries
     = Inr (map (\<lambda>x. IsoNode x (tag_folder @ ''/'' @ x))
         (filter (\<lambda>x. contains (py_lower (the (subprocess_popen sy w [''file'', probe_folder @ ''/'' @ x])))
                        ''iso 9660'')
            entries))"
  using assms by (induction entries) auto

text \<open>
  Claim C3, where it fails. The first loop of \<open>iq_getiso\<close> lists the private folder but
  classifies each entry at the shared folder's path (line 327). The private folder
  \<open>/vm\<close> holds \<open>a.iso\<close>, which \<^verbatim>\<open>file\<close> classifies as ISO 9660 in the private folder; no
  file of that name is in the shared folder \<open>/isos/\<close>, and the reply is empty.
\<close>

theorem getiso_misses_private_iso:
  "map_option py_split_ws (subprocess_popen demo_sys (world demo_entity) [''ls'', folder demo_entity])
     = Some [''a.iso'']
   \<and> map_option (\<lambda>out. contains (py_lower out) ''iso 9660'')
       (subprocess_popen demo_sys (world demo_entity) [''file'', folder demo_entity @ ''/'' @ ''a.iso''])
     = Some True
   \<and> fst (iq_getiso demo_sys demo_plugin (demo_iq []) demo_entity) = Result []"
  by (simp add: iq_getiso_def Let_def demo_sys_def demo_popen_def demo_plugin_def demo_entity_def
      py_split_ws_def is_space_def py_lower_def lower_char_def contains_def log_info_def emit_def)

end
